theory Spec2Isabelle
  imports Main "HOL-Library.Sublist"
begin

section \<open>JavaScript strings\<close>

text \<open>
  A JavaScript string is a sequence of UTF-16 code units; a code unit is modelled as a
  natural number and a string as a list of them. \<open>str\<close> turns a literal of the source,
  which is ASCII throughout this program, into such a list. Lengths, slices, \<^verbatim>\<open>trim\<close>,
  \<^verbatim>\<open>includes\<close> and the regular expressions of the source all work on code units.
\<close>

type_synonym jsstring = "nat list"

definition ch :: "char \<Rightarrow> nat" where
  "ch c = of_char c"

definition str :: "string \<Rightarrow> jsstring" where
  "str s = map ch s"

definition isAscii :: "nat \<Rightarrow> bool" where
  "isAscii c = (c < 128)"

definition isUpperAZ :: "nat \<Rightarrow> bool" where
  \<comment> \<open>the class \<^verbatim>\<open>[A-Z]\<close>\<close>
  "isUpperAZ c = (65 \<le> c \<and> c \<le> 90)"

definition isLowerAZ :: "nat \<Rightarrow> bool" where
  "isLowerAZ c = (97 \<le> c \<and> c \<le> 122)"

definition isDigit09 :: "nat \<Rightarrow> bool" where
  \<comment> \<open>the class \<^verbatim>\<open>[0-9]\<close>\<close>
  "isDigit09 c = (48 \<le> c \<and> c \<le> 57)"

definition asciiUpper :: "nat \<Rightarrow> nat" where
  "asciiUpper c = (if isLowerAZ c then c - 32 else c)"

definition asciiLower :: "nat \<Rightarrow> nat" where
  "asciiLower c = (if isUpperAZ c then c + 32 else c)"

text \<open>
  \<^verbatim>\<open>String.prototype.toUpperCase\<close> maps a string of ASCII code units unit by unit. On a
  string with a code unit outside ASCII its result is given by the case-mapping table of
  the Unicode standard, which may change the length of the string (the ligature U+FB01
  becomes \<open>FI\<close>). That table belongs to the platform and not to this repository; it is the
  parameter \<open>U\<close> of \<open>toUpperCase\<close> and of every function that calls it, and the theorems
  hold for every \<open>U\<close>.
\<close>

definition toUpperCase :: "(jsstring \<Rightarrow> jsstring) \<Rightarrow> jsstring \<Rightarrow> jsstring" where
  "toUpperCase U s = (if list_all isAscii s then map asciiUpper s else U s)"

definition asciiTable :: "jsstring \<Rightarrow> jsstring" where
  \<comment> \<open>the table that changes nothing but the ASCII letters; it takes the place of \<open>U\<close>
      in the concrete examples, whose values do not depend on the table\<close>
  "asciiTable s = map asciiUpper s"

text \<open>
  \<^verbatim>\<open>toLowerCase\<close> is only used to search a lower-cased text for the ASCII keywords of the
  fault classification and for \<open>timeout\<close>. Lower-casing maps two code units outside ASCII
  to ASCII letters: U+212A to \<open>k\<close>, which no keyword contains, and U+0130 to \<open>i\<close> followed
  by U+0307, which can only end an occurrence, and no keyword ends in \<open>i\<close>. The occurrences
  of the keywords are therefore those in the text lower-cased on its ASCII letters, which
  is what \<open>toLowerCase\<close> computes.
\<close>

definition toLowerCase :: "jsstring \<Rightarrow> jsstring" where
  "toLowerCase s = map asciiLower s"

definition isSpace :: "nat \<Rightarrow> bool" where
  \<comment> \<open>the class \<^verbatim>\<open>\s\<close>, which is also what \<^verbatim>\<open>trim\<close> strips: the white space and line
      terminators of ECMAScript, U+0009 to U+000D, U+0020, U+00A0, U+1680, U+2000 to U+200A,
      U+2028, U+2029, U+202F, U+205F, U+3000 and U+FEFF\<close>
  "isSpace c =
     ((9 \<le> c \<and> c \<le> 13) \<or> c = 32 \<or> c = 160 \<or> c = 5760 \<or> (8192 \<le> c \<and> c \<le> 8202)
      \<or> c = 8232 \<or> c = 8233 \<or> c = 8239 \<or> c = 8287 \<or> c = 12288 \<or> c = 65279)"

definition trim :: "jsstring \<Rightarrow> jsstring" where
  "trim s = rev (dropWhile isSpace (rev (dropWhile isSpace s)))"

fun includes_str :: "jsstring \<Rightarrow> jsstring \<Rightarrow> bool" where
  \<comment> \<open>\<^verbatim>\<open>s.includes(k)\<close>: \<open>k\<close> occurs in \<open>s\<close> as a contiguous substring\<close>
  "includes_str [] k = (k = [])"
| "includes_str (c # s) k = (prefix k (c # s) \<or> includes_str s k)"

definition replaceAllChar :: "nat \<Rightarrow> jsstring \<Rightarrow> jsstring \<Rightarrow> jsstring" where
  \<comment> \<open>\<^verbatim>\<open>s.replace(/c/g, rep)\<close> for a one-character pattern\<close>
  "replaceAllChar c rep s = concat (map (\<lambda>x. if x = c then rep else [x]) s)"


section \<open>Input validation (src/validation/vatValidation.ts)\<close>

definition EU_COUNTRY_CODES :: "jsstring list" where
  "EU_COUNTRY_CODES = map str
     [''AT'', ''BE'', ''BG'', ''HR'', ''CY'', ''CZ'', ''DE'', ''DK'', ''EE'', ''EL'', ''ES'', ''FI'', ''FR'',
      ''GR'', ''HU'', ''IE'', ''IT'', ''LT'', ''LU'', ''LV'', ''MT'', ''NL'', ''PL'', ''PT'', ''RO'', ''SE'',
      ''SI'', ''SK'', ''XI'']"

definition COUNTRY_CODE_REGEX_test :: "jsstring \<Rightarrow> bool" where
  \<comment> \<open>\<^verbatim>\<open>/^[A-Z]{2}$/.test(s)\<close>\<close>
  "COUNTRY_CODE_REGEX_test s = (length s = 2 \<and> list_all isUpperAZ s)"

definition VAT_NUMBER_REGEX_test :: "jsstring \<Rightarrow> bool" where
  \<comment> \<open>\<^verbatim>\<open>/^[A-Z0-9]{2,12}$/.test(s)\<close>\<close>
  "VAT_NUMBER_REGEX_test s =
     (2 \<le> length s \<and> length s \<le> 12 \<and> list_all (\<lambda>c. isUpperAZ c \<or> isDigit09 c) s)"

definition MAX_VAT_INPUT_LENGTH :: nat where
  "MAX_VAT_INPUT_LENGTH = 20"

text \<open>
  \<^verbatim>\<open>ValidationResult\<close> and \<^verbatim>\<open>ValidationError\<close> are told apart in the source by their
  \<^verbatim>\<open>valid\<close> field; here by the side of a sum. A \<^verbatim>\<open>ValidationError | null\<close> is an option.
\<close>

record ValidationResult =
  countryCode :: jsstring
  vatNumber :: jsstring

record ValidationError =
  error :: jsstring
  message :: jsstring

type_synonym ValidationOutcome = "ValidationError + ValidationResult"

definition normalizeVatNumber :: "(jsstring \<Rightarrow> jsstring) \<Rightarrow> jsstring \<Rightarrow> jsstring" where
  \<comment> \<open>\<^verbatim>\<open>vat.replace(/\s+/g, "").replace(/-/g, "").toUpperCase()\<close>\<close>
  "normalizeVatNumber U vat =
     toUpperCase U (filter (\<lambda>c. c \<noteq> ch CHR ''-'') (filter (\<lambda>c. \<not> isSpace c) vat))"

definition validateCountryCode :: "(jsstring \<Rightarrow> jsstring) \<Rightarrow> jsstring \<Rightarrow> ValidationError option" where
  "validateCountryCode U cc =
     (let code = toUpperCase U cc in
      if \<not> COUNTRY_CODE_REGEX_test code then
        Some \<lparr>error = str ''Invalid Input'',
              message = str ''countryCode must be a two-letter ISO country code (e.g. IE, DE).''\<rparr>
      else if code \<notin> set EU_COUNTRY_CODES then
        Some \<lparr>error = str ''Invalid Input'',
              message = str ''Unsupported or invalid country code: '' @ code @
                str ''. Must be an EU/EEA code supported by VIES (e.g. IE, DE, FR).''\<rparr>
      else None)"

definition validateVatNumber :: "jsstring \<Rightarrow> ValidationError option" where
  \<comment> \<open>the dash of the second message is the code unit U+2013\<close>
  "validateVatNumber vn =
     (if vn = [] then
        Some \<lparr>error = str ''Invalid Input'',
              message = str ''vatNumber is required and cannot be empty.''\<rparr>
      else if \<not> VAT_NUMBER_REGEX_test vn then
        Some \<lparr>error = str ''Invalid Input'',
              message = str ''vatNumber must contain only letters and digits (2'' @ [8211] @
                str ''12 characters after removing spaces/dashes).''\<rparr>
      else None)"

datatype raw_input = Str jsstring | NotStr
  \<comment> \<open>what the query parameter may be at run time: a string, or anything else\<close>

definition validateFullVatInput :: "(jsstring \<Rightarrow> jsstring) \<Rightarrow> raw_input \<Rightarrow> ValidationOutcome" where
  "validateFullVatInput U raw =
     (case raw of
        NotStr \<Rightarrow>
          Inl \<lparr>error = str ''Invalid Input'',
               message = str ''vat_number must be a string (e.g. ?vat_number=IE6388047V).''\<rparr>
      | Str r \<Rightarrow>
          (let trimmed = trim r in
           if trimmed = [] then
             Inl \<lparr>error = str ''Invalid Input'',
                  message = str ''Query parameter vat_number is required (e.g. ?vat_number=IE6388047V).''\<rparr>
           else if length trimmed > MAX_VAT_INPUT_LENGTH then
             Inl \<lparr>error = str ''Invalid Input'',
                  message = str ''vat_number is too long (max 20 characters).''\<rparr>
           else if length trimmed < 4 then
             Inl \<lparr>error = str ''Invalid Input'',
                  message = str ''vat_number must start with a two-letter country code followed by the VAT number (e.g. IE6388047V).''\<rparr>
           else
             (let cc = toUpperCase U (take 2 trimmed);
                  vn = normalizeVatNumber U (drop 2 trimmed) in
              case validateCountryCode U cc of
                Some countryError \<Rightarrow>
                  Inl (countryError\<lparr>message :=
                    str ''vat_number must start with a valid EU country code (e.g. IE6388047V).''\<rparr>)
              | None \<Rightarrow>
                  (case validateVatNumber vn of
                     Some vatError \<Rightarrow> Inl vatError
                   | None \<Rightarrow> Inr \<lparr>countryCode = cc, vatNumber = vn\<rparr>))))"

definition validatePathParams ::
  "(jsstring \<Rightarrow> jsstring) \<Rightarrow> jsstring \<Rightarrow> jsstring \<Rightarrow> ValidationOutcome" where
  "validatePathParams U cc vatNumberRaw =
     (let code = toUpperCase U cc;
          vn = normalizeVatNumber U vatNumberRaw in
      case validateCountryCode U code of
        Some countryError \<Rightarrow> Inl countryError
      | None \<Rightarrow>
          (case validateVatNumber vn of
             Some vatError \<Rightarrow> Inl vatError
           | None \<Rightarrow> Inr \<lparr>countryCode = code, vatNumber = vn\<rparr>))"


section \<open>Regular expressions of the registry client\<close>

text \<open>
  The regular expressions of \<^verbatim>\<open>viesService.ts\<close> are sequences of one-character atoms,
  possibly starred, with one capture group around a lazy star. They are run by a
  backtracking matcher with the priorities of the JavaScript engine: a greedy quantifier
  tries one more character before it tries the rest of the pattern, the lazy one tries
  the rest of the pattern first. \<open>rmatch\<close> matches a pattern at the start of the input and
  returns the text of the capture group; \<open>rsearch\<close> is the leftmost match.
\<close>

datatype atom =
    One "nat \<Rightarrow> bool"        \<comment> \<open>one character of a class, or a literal\<close>
  | Star "nat \<Rightarrow> bool"       \<comment> \<open>\<^verbatim>\<open>C*\<close>, greedy\<close>
  | Opt "nat \<Rightarrow> bool"        \<comment> \<open>\<^verbatim>\<open>C?\<close>, greedy\<close>
  | LazyGroup "nat \<Rightarrow> bool"  \<comment> \<open>\<^verbatim>\<open>(C*?)\<close>, the capture group\<close>
  | Eos                      \<comment> \<open>\<^verbatim>\<open>$\<close> without the multiline flag\<close>

fun rmatch :: "atom list \<Rightarrow> jsstring \<Rightarrow> jsstring \<Rightarrow> jsstring option" where
  "rmatch [] s cap = Some cap"
| "rmatch (One p # r) [] cap = None"
| "rmatch (One p # r) (c # s) cap = (if p c then rmatch r s cap else None)"
| "rmatch (Opt p # r) [] cap = rmatch r [] cap"
| "rmatch (Opt p # r) (c # s) cap =
     (if p c then (case rmatch r s cap of Some m \<Rightarrow> Some m | None \<Rightarrow> rmatch r (c # s) cap)
      else rmatch r (c # s) cap)"
| "rmatch (Star p # r) [] cap = rmatch r [] cap"
| "rmatch (Star p # r) (c # s) cap =
     (if p c then (case rmatch (Star p # r) s cap of Some m \<Rightarrow> Some m | None \<Rightarrow> rmatch r (c # s) cap)
      else rmatch r (c # s) cap)"
| "rmatch (LazyGroup p # r) [] cap = rmatch r [] cap"
| "rmatch (LazyGroup p # r) (c # s) cap =
     (case rmatch r (c # s) cap of Some m \<Rightarrow> Some m
      | None \<Rightarrow> if p c then rmatch (LazyGroup p # r) s (cap @ [c]) else None)"
| "rmatch (Eos # r) [] cap = rmatch r [] cap"
| "rmatch (Eos # r) (c # s) cap = None"

fun rsearch :: "atom list \<Rightarrow> jsstring \<Rightarrow> jsstring option" where
  "rsearch re [] = rmatch re [] []"
| "rsearch re (c # s) = (case rmatch re (c # s) [] of Some m \<Rightarrow> Some m | None \<Rightarrow> rsearch re s)"

definition lit :: "nat \<Rightarrow> atom" where
  "lit c = One (\<lambda>x. x = c)"

definition canonicalize :: "nat \<Rightarrow> nat" where
  \<comment> \<open>the canonical form of a code unit under the \<^verbatim>\<open>i\<close> flag without the \<^verbatim>\<open>u\<close> flag: the
      upper-case letter for an ASCII letter, and never an ASCII code unit for a code unit
      outside ASCII; the patterns below compare with ASCII letters only, and what a code
      unit outside ASCII is mapped to makes no difference to them\<close>
  "canonicalize c = asciiUpper c"

definition lit_i :: "nat \<Rightarrow> atom" where
  \<comment> \<open>a literal under the \<^verbatim>\<open>i\<close> flag: both sides are compared in canonical form\<close>
  "lit_i c = One (\<lambda>x. canonicalize x = canonicalize c)"

definition notColonGt :: "nat \<Rightarrow> bool" where
  \<comment> \<open>the class \<^verbatim>\<open>[^:>]\<close>\<close>
  "notColonGt c = (c \<noteq> ch CHR '':'' \<and> c \<noteq> ch CHR ''>'')"

definition notGt :: "nat \<Rightarrow> bool" where
  \<comment> \<open>the class \<^verbatim>\<open>[^>]\<close>\<close>
  "notGt c = (c \<noteq> ch CHR ''>'')"

definition anyChar :: "nat \<Rightarrow> bool" where
  \<comment> \<open>the class \<^verbatim>\<open>[\s\S]\<close>\<close>
  "anyChar c = (isSpace c \<or> \<not> isSpace c)"

definition tagPattern1 :: "jsstring \<Rightarrow> atom list" where
  \<comment> \<open>\<^verbatim>\<open><[^:>]*:?TAG[^>]*>([\s\S]*?)</[^:>]*:?TAG\s*>\<close> with flag \<^verbatim>\<open>i\<close>, for a tag name of
      letters\<close>
  "tagPattern1 tagName =
     [lit (ch CHR ''<''), Star notColonGt, Opt (\<lambda>c. c = ch CHR '':'')] @ map lit_i tagName @
     [Star notGt, lit (ch CHR ''>''), LazyGroup anyChar,
      lit (ch CHR ''<''), lit (ch CHR ''/''), Star notColonGt, Opt (\<lambda>c. c = ch CHR '':'')] @ map lit_i tagName @
     [Star isSpace, lit (ch CHR ''>'')]"

definition tagPattern2 :: "jsstring \<Rightarrow> atom list" where
  \<comment> \<open>\<^verbatim>\<open><TAG[^>]*>([\s\S]*?)</TAG\s*>\<close> with flag \<^verbatim>\<open>i\<close>\<close>
  "tagPattern2 tagName =
     [lit (ch CHR ''<'')] @ map lit_i tagName @
     [Star notGt, lit (ch CHR ''>''), LazyGroup anyChar, lit (ch CHR ''<''), lit (ch CHR ''/'')] @ map lit_i tagName @
     [Star isSpace, lit (ch CHR ''>'')]"

definition truePattern :: "atom list" where
  \<comment> \<open>\<^verbatim>\<open>^\s*true\s*$\<close> with flag \<^verbatim>\<open>i\<close>; the leading \<^verbatim>\<open>^\<close> is the anchoring of \<open>rmatch\<close>\<close>
  "truePattern = [Star isSpace] @ map lit_i (str ''true'') @ [Star isSpace, Eos]"


section \<open>The registry client (src/services/viesService.ts)\<close>

definition SOAP_NS :: jsstring where
  "SOAP_NS = str ''urn:ec.europa.eu:taxud:vies:services:checkVat:types''"

definition escapeXml :: "jsstring \<Rightarrow> jsstring" where
  "escapeXml s =
     replaceAllChar 39 (str ''&apos;'')
       (replaceAllChar 34 (str ''&quot;'')
         (replaceAllChar (ch CHR ''>'') (str ''&gt;'')
           (replaceAllChar (ch CHR ''<'') (str ''&lt;'')
             (replaceAllChar (ch CHR ''&'') (str ''&amp;'') s))))"

fun join_lines :: "jsstring list \<Rightarrow> jsstring" where
  \<comment> \<open>\<^verbatim>\<open>lines.join("\n")\<close>\<close>
  "join_lines [] = []"
| "join_lines [l] = l"
| "join_lines (l # ls) = l @ [10] @ join_lines ls"

definition buildSoapEnvelope :: "jsstring \<Rightarrow> jsstring \<Rightarrow> jsstring" where
  \<open>buildSoapEnvelope cc vn = join_lines
     [str ''<?xml version="1.0" encoding="UTF-8"?>'',
      str ''<soap:Envelope xmlns:soap="http://schemas.xmlsoap.org/soap/envelope/" xmlns:urn="'' @ SOAP_NS @ str ''">'',
      str ''  <soap:Body>'',
      str ''    <urn:checkVat>'',
      str ''      <urn:countryCode>'' @ escapeXml cc @ str ''</urn:countryCode>'',
      str ''      <urn:vatNumber>'' @ escapeXml vn @ str ''</urn:vatNumber>'',
      str ''    </urn:checkVat>'',
      str ''  </soap:Body>'',
      str ''</soap:Envelope>'']\<close>

fun firstMatch :: "atom list list \<Rightarrow> jsstring \<Rightarrow> jsstring option" where
  \<comment> \<open>the loop over the patterns of \<open>extractTag\<close>: the first pattern that matches decides\<close>
  "firstMatch [] xml = None"
| "firstMatch (re # res) xml =
     (case rsearch re xml of Some m \<Rightarrow> Some (trim m) | None \<Rightarrow> firstMatch res xml)"

definition extractTag :: "jsstring \<Rightarrow> jsstring \<Rightarrow> jsstring option" where
  "extractTag xml tagName = firstMatch [tagPattern1 tagName, tagPattern2 tagName] xml"

text \<open>
  \<^verbatim>\<open>ViesResponse\<close> has the two fields of \<^verbatim>\<open>ValidationResult\<close> and five more; it is
  declared as its extension, so that the fields keep their names.
\<close>

record ViesResponse = ValidationResult +
  valid :: bool
  name :: jsstring
  address :: jsstring
  requestDate :: jsstring
  consultationNumber :: "jsstring option"

definition orEmpty :: "jsstring option \<Rightarrow> jsstring" where
  \<comment> \<open>\<^verbatim>\<open>x ?? ""\<close>\<close>
  "orEmpty x = (case x of None \<Rightarrow> [] | Some v \<Rightarrow> v)"

definition parseViesResponse :: "jsstring \<Rightarrow> jsstring + ViesResponse" where
  \<comment> \<open>\<open>Inl\<close> is the message of the \<^verbatim>\<open>Error\<close> thrown\<close>
  "parseViesResponse xml =
     (case extractTag xml (str ''valid'') of
        None \<Rightarrow> Inl (str ''VIES response missing required 'valid' element'')
      | Some validStr \<Rightarrow>
          Inr \<lparr>countryCode = orEmpty (extractTag xml (str ''countryCode'')),
               vatNumber = orEmpty (extractTag xml (str ''vatNumber'')),
               valid = (rmatch truePattern validStr [] \<noteq> None),
               name = orEmpty (extractTag xml (str ''name'')),
               address = orEmpty (extractTag xml (str ''address'')),
               requestDate = orEmpty (extractTag xml (str ''requestDate'')),
               consultationNumber = extractTag xml (str ''requestIdentifier'')\<rparr>)"

definition getSoapFaultString :: "jsstring \<Rightarrow> jsstring option" where
  \<comment> \<open>\<^verbatim>\<open>if (faultString)\<close> is false on \<^verbatim>\<open>null\<close> and on the empty string\<close>
  "getSoapFaultString xml =
     (case extractTag xml (str ''faultstring'') of
        None \<Rightarrow> None
      | Some faultString \<Rightarrow> if faultString \<noteq> [] then Some (trim faultString) else None)"

datatype ViesErrorCode =
    SERVICE_UNAVAILABLE | MS_UNAVAILABLE | INVALID_INPUT | TIMEOUT | SERVER_BUSY
  | SERVER_DOWN | NETWORK_ERROR | PARSE_ERROR | UNKNOWN_ERROR

record ViesServiceError =
  err_message :: jsstring
  code :: ViesErrorCode
  statusCode :: int
  details :: "jsstring option"

fun VIES_ERROR_MESSAGES :: "ViesErrorCode \<Rightarrow> jsstring" where
  "VIES_ERROR_MESSAGES INVALID_INPUT =
     str ''The VAT number or country code was rejected by the EU VIES system. Please check the format and try again.''"
| "VIES_ERROR_MESSAGES MS_UNAVAILABLE =
     str ''The member state's validation service is temporarily unavailable. Please try again later.''"
| "VIES_ERROR_MESSAGES SERVICE_UNAVAILABLE =
     str ''The EU VIES service is temporarily unavailable. Please try again later.''"
| "VIES_ERROR_MESSAGES SERVER_DOWN =
     str ''The EU VIES service is currently down. Please try again later.''"
| "VIES_ERROR_MESSAGES TIMEOUT =
     str ''The request to the EU VIES service timed out. Please try again.''"
| "VIES_ERROR_MESSAGES SERVER_BUSY =
     str ''The EU VIES service is currently busy. Please try again in a few minutes.''"
| "VIES_ERROR_MESSAGES NETWORK_ERROR =
     str ''Unable to reach the EU VIES service. Check your network connection or try again later.''"
| "VIES_ERROR_MESSAGES PARSE_ERROR =
     str ''The EU VIES service returned an unexpected response. Please try again later.''"
| "VIES_ERROR_MESSAGES UNKNOWN_ERROR =
     str ''An unexpected error occurred while validating the VAT number. Please try again.''"

definition toFriendlyError :: "ViesErrorCode \<Rightarrow> int \<Rightarrow> jsstring option \<Rightarrow> ViesServiceError" where
  "toFriendlyError c st rawFault =
     \<lparr>err_message = VIES_ERROR_MESSAGES c, code = c, statusCode = st, details = rawFault\<rparr>"

definition normalizeFault :: "jsstring \<Rightarrow> ViesErrorCode \<times> int" where
  \<comment> \<open>the pair is the object \<^verbatim>\<open>{ code, statusCode }\<close>\<close>
  "normalizeFault faultString =
     (let lower = toLowerCase faultString in
      if includes_str lower (str ''service unavailable'') \<or> includes_str lower (str ''server down'') then
        (SERVICE_UNAVAILABLE, 503)
      else if includes_str lower (str ''ms unavailable'') \<or> includes_str lower (str ''member state'') then
        (MS_UNAVAILABLE, 503)
      else if includes_str lower (str ''invalid'') \<or> includes_str lower (str ''invalid input'') then
        (INVALID_INPUT, 400)
      else if includes_str lower (str ''timeout'') \<or> includes_str lower (str ''timed out'') then
        (TIMEOUT, 504)
      else if includes_str lower (str ''busy'') \<or> includes_str lower (str ''overloaded'') then
        (SERVER_BUSY, 503)
      else (UNKNOWN_ERROR, 502))"

definition isNetworkErrorCode :: "jsstring option \<Rightarrow> bool" where
  "isNetworkErrorCode c =
     (case c of
        None \<Rightarrow> False
      | Some k \<Rightarrow>
          if k = [] then False
          else k \<in> set [str ''ECONNREFUSED'', str ''ECONNRESET'', str ''ENOTFOUND'', str ''ENETUNREACH'', str ''ETIMEDOUT'',
                         str ''EAI_AGAIN'', str ''ERR_NETWORK'', str ''ERR_CONNECTION_REFUSED'',
                         str ''ERR_CONNECTION_RESET''])"

text \<open>
  What the HTTP client hands back. A response body is a text or something else; an Axios
  error carries an optional error code, an optional message and an optional response with
  its status and body; anything else that is thrown carries at most a message.
\<close>

datatype body = TextBody jsstring | OtherBody

record AxiosResponse =
  status :: int
  data :: body

record AxiosError =
  ax_code :: "jsstring option"
  ax_message :: "jsstring option"
  response :: "AxiosResponse option"

datatype post_outcome =
    Resolved body
  | RejectedAxios AxiosError
  | RejectedOther "jsstring option"

definition faultOfErrorBody :: "AxiosError \<Rightarrow> jsstring option" where
  \<comment> \<open>the fault string of the body of a failed response: the body must be a non-empty
      text in which \<open>getSoapFaultString\<close> finds a fault\<close>
  "faultOfErrorBody ax =
     (case response ax of
        None \<Rightarrow> None
      | Some resp \<Rightarrow>
          (case data resp of
             OtherBody \<Rightarrow> None
           | TextBody d \<Rightarrow> if d \<noteq> [] then getSoapFaultString d else None))"

definition messageHasTimeout :: "AxiosError \<Rightarrow> bool" where
  \<comment> \<open>\<^verbatim>\<open>ax.message?.toLowerCase().includes("timeout")\<close>\<close>
  "messageHasTimeout ax =
     (case ax_message ax of None \<Rightarrow> False | Some m \<Rightarrow> includes_str (toLowerCase m) (str ''timeout''))"

definition responseStatus :: "AxiosError \<Rightarrow> int option" where
  \<comment> \<open>\<^verbatim>\<open>ax.response?.status\<close>\<close>
  "responseStatus ax = map_option status (response ax)"

definition classifyAxiosError :: "AxiosError \<Rightarrow> ViesServiceError" where
  \<comment> \<open>the \<^verbatim>\<open>axios.isAxiosError(err)\<close> branch of the handler in \<open>checkVat\<close>\<close>
  "classifyAxiosError ax =
     (case faultOfErrorBody ax of
        Some fault \<Rightarrow>
          (case normalizeFault fault of (c, st) \<Rightarrow> toFriendlyError c st (Some fault))
      | None \<Rightarrow>
          if ax_code ax = Some (str ''ECONNABORTED'') \<or> messageHasTimeout ax then
            toFriendlyError TIMEOUT 504 None
          else if responseStatus ax = Some 503 then
            toFriendlyError SERVICE_UNAVAILABLE 503 None
          else if responseStatus ax = Some 403 then
            toFriendlyError SERVICE_UNAVAILABLE 502
              (Some (str ''The EU VIES service blocked the request (often when called from cloud/datacenter IPs). Try again later or run the API from a different network.''))
          else if isNetworkErrorCode (ax_code ax) then
            toFriendlyError NETWORK_ERROR 502
              (case ax_message ax of Some m \<Rightarrow> Some m | None \<Rightarrow> ax_code ax)
          else
            (let st = (case responseStatus ax of
                         Some s \<Rightarrow> if s \<noteq> 0 \<and> s \<ge> 400 then s else 502
                       | None \<Rightarrow> 502)
             in toFriendlyError UNKNOWN_ERROR st (ax_message ax)))"

definition checkVatOutcome :: "post_outcome \<Rightarrow> ViesServiceError + ViesResponse" where
  \<comment> \<open>\<open>checkVat\<close> after the request: what it returns or throws for each outcome of the POST\<close>
  "checkVatOutcome out =
     (case out of
        RejectedAxios ax \<Rightarrow> Inl (classifyAxiosError ax)
      | RejectedOther msg \<Rightarrow> Inl (toFriendlyError UNKNOWN_ERROR 502 msg)
      | Resolved OtherBody \<Rightarrow> Inl (toFriendlyError PARSE_ERROR 502 (Some (str ''Empty response from VIES'')))
      | Resolved (TextBody d) \<Rightarrow>
          if length (trim d) = 0 then
            Inl (toFriendlyError PARSE_ERROR 502 (Some (str ''Empty response from VIES'')))
          else
            (case getSoapFaultString d of
               Some fault \<Rightarrow>
                 (case normalizeFault fault of (c, st) \<Rightarrow> Inl (toFriendlyError c st (Some fault)))
             | None \<Rightarrow>
                 (case parseViesResponse d of
                    Inr res \<Rightarrow> Inr res
                  | Inl detail \<Rightarrow> Inl (toFriendlyError PARSE_ERROR 502 (Some detail)))))"


section \<open>The fallback provider and the orchestrator\<close>

text \<open>
  The network is a parameter: \<open>post\<close> answers the SOAP request sent to the registry, \<open>get\<close>
  the query sent to the fallback provider with its access key, and \<open>today\<close> is the date of
  the clock. Every function that performs a request returns the requests it made, in
  order, next to its result; a thrown value is the left side of the result.
\<close>

record VatlayerResponse =
  vl_valid :: "bool option"            \<comment> \<open>\<open>None\<close>: absent or not a boolean\<close>
  vl_country_code :: "jsstring option"
  vl_vat_number :: "jsstring option"
  vl_company_name :: "jsstring option"
  vl_company_address :: "jsstring option"

datatype get_outcome =
    GetResolved "VatlayerResponse option"     \<comment> \<open>\<open>None\<close>: an empty body\<close>
  | GetRejectedAxios "jsstring option" jsstring  \<comment> \<open>\<^verbatim>\<open>response.data.error.info\<close> and the message\<close>
  | GetRejectedOther "jsstring option"          \<comment> \<open>the message when it is an \<^verbatim>\<open>Error\<close>\<close>

record world =
  post :: "jsstring \<Rightarrow> post_outcome"
  get :: "jsstring \<Rightarrow> jsstring \<Rightarrow> get_outcome"
  today :: jsstring

datatype request = PostVies jsstring | GetVatlayer jsstring jsstring

datatype thrown = ViesError ViesServiceError | PlainError jsstring

definition checkVat :: "world \<Rightarrow> jsstring \<Rightarrow> jsstring \<Rightarrow> request list \<times> (thrown + ViesResponse)" where
  "checkVat w cc vn =
     (let envelope = buildSoapEnvelope cc vn in
      ([PostVies envelope],
       case checkVatOutcome (post w envelope) of Inl e \<Rightarrow> Inl (ViesError e) | Inr res \<Rightarrow> Inr res))"

definition checkVatViaVatlayer ::
  "world \<Rightarrow> jsstring \<Rightarrow> jsstring \<Rightarrow> jsstring \<Rightarrow> request list \<times> (thrown + ViesResponse)" where
  "checkVatViaVatlayer w apiKey cc vn =
     (let fullVat = filter (\<lambda>c. \<not> isSpace c) (cc @ vn) in
      ([GetVatlayer apiKey fullVat],
       case get w apiKey fullVat of
         GetRejectedAxios info msg \<Rightarrow>
           Inl (PlainError (str ''Vatlayer request failed: '' @ (case info of Some i \<Rightarrow> i | None \<Rightarrow> msg)))
       | GetRejectedOther msg \<Rightarrow>
           Inl (PlainError (case msg of Some m \<Rightarrow> m | None \<Rightarrow> str ''Vatlayer request failed''))
       | GetResolved None \<Rightarrow> Inl (PlainError (str ''Vatlayer returned an invalid response''))
       | GetResolved (Some d) \<Rightarrow>
           (case vl_valid d of
              None \<Rightarrow> Inl (PlainError (str ''Vatlayer returned an invalid response''))
            | Some v \<Rightarrow>
                Inr \<lparr>countryCode = (case vl_country_code d of Some x \<Rightarrow> x | None \<Rightarrow> cc),
                     vatNumber = (case vl_vat_number d of Some x \<Rightarrow> x | None \<Rightarrow> vn),
                     valid = v,
                     name = orEmpty (vl_company_name d),
                     address = orEmpty (vl_company_address d),
                     requestDate = today w,
                     consultationNumber = None\<rparr>)))"

definition useVatlayer :: "jsstring option \<Rightarrow> thrown \<Rightarrow> bool" where
  \<comment> \<open>\<^verbatim>\<open>config.vatlayerApiKey && err instanceof ViesServiceError && err.code ===
      "SERVICE_UNAVAILABLE" && err.statusCode === 502\<close>; a key is truthy when it is set and
      not empty\<close>
  "useVatlayer vatlayerApiKey err =
     ((case vatlayerApiKey of None \<Rightarrow> False | Some k \<Rightarrow> k \<noteq> []) \<and>
      (case err of
         ViesError e \<Rightarrow> code e = SERVICE_UNAVAILABLE \<and> statusCode e = 502
       | PlainError m \<Rightarrow> False))"

definition validateVat ::
  "world \<Rightarrow> jsstring option \<Rightarrow> jsstring \<Rightarrow> jsstring \<Rightarrow> request list \<times> (thrown + ViesResponse)" where
  \<comment> \<open>\<open>vatlayerApiKey\<close> is \<^verbatim>\<open>config.vatlayerApiKey\<close>\<close>
  "validateVat w vatlayerApiKey cc vn =
     (case checkVat w cc vn of
        (reqs, Inr res) \<Rightarrow> (reqs, Inr res)
      | (reqs, Inl err) \<Rightarrow>
          if useVatlayer vatlayerApiKey err then
            (case checkVatViaVatlayer w (the vatlayerApiKey) cc vn of
               (reqs', r) \<Rightarrow> (reqs @ reqs', r))
          else (reqs, Inl err))"


section \<open>The statements of the specification\<close>

text \<open>
  The priority table of the fault classification, as the specification words it: a keyword
  occurs in a fault string when, at some position, the characters of the fault string
  equal the keyword up to letter case; the first rule with an occurring keyword decides.
\<close>

definition spec_containsCI :: "jsstring \<Rightarrow> jsstring \<Rightarrow> bool" where
  "spec_containsCI s k =
     list_ex (\<lambda>i. toLowerCase (take (length k) (drop i s)) = toLowerCase k) [0..<Suc (length s)]"

definition spec_faultRules :: "(jsstring list \<times> ViesErrorCode \<times> int) list" where
  "spec_faultRules =
     [([str ''service unavailable'', str ''server down''], SERVICE_UNAVAILABLE, 503),
      ([str ''ms unavailable'', str ''member state''], MS_UNAVAILABLE, 503),
      ([str ''invalid''], INVALID_INPUT, 400),
      ([str ''timeout'', str ''timed out''], TIMEOUT, 504),
      ([str ''busy'', str ''overloaded''], SERVER_BUSY, 503)]"

fun spec_classifyFault :: "(jsstring list \<times> ViesErrorCode \<times> int) list \<Rightarrow> jsstring \<Rightarrow> ViesErrorCode \<times> int" where
  "spec_classifyFault [] f = (UNKNOWN_ERROR, 502)"
| "spec_classifyFault ((kws, c, st) # rules) f =
     (if list_ex (spec_containsCI f) kws then (c, st) else spec_classifyFault rules f)"

text \<open>The requests sent to the fallback provider are told from those sent to the registry.\<close>

fun isFallbackRequest :: "request \<Rightarrow> bool" where
  "isFallbackRequest (GetVatlayer k v) = True"
| "isFallbackRequest (PostVies e) = False"



section \<open>Facts about the string primitives\<close>

lemmas char_eval =
  str_def ch_def toUpperCase_def toLowerCase_def asciiUpper_def asciiLower_def asciiTable_def
  canonicalize_def isAscii_def isLowerAZ_def isUpperAZ_def isDigit09_def isSpace_def


lemma asciiUpper_fix: "isUpperAZ c \<or> isDigit09 c \<Longrightarrow> asciiUpper c = c"
  by (auto simp: asciiUpper_def isUpperAZ_def isDigit09_def isLowerAZ_def)




lemma toUpperCase_ascii: "list_all isAscii s \<Longrightarrow> toUpperCase U s = map asciiUpper s"
  by (simp add: toUpperCase_def)


lemma class_isAscii: "isUpperAZ c \<or> isDigit09 c \<Longrightarrow> isAscii c"
  by (auto simp: isUpperAZ_def isDigit09_def isAscii_def)

lemma toUpperCase_fix:
  assumes "list_all (\<lambda>c. isUpperAZ c \<or> isDigit09 c) s"
  shows "toUpperCase U s = s"
proof -
  have "list_all isAscii s"
    using assms by (auto simp: list_all_iff class_isAscii)
  moreover have "map asciiUpper s = s"
    using assms by (simp add: list_all_iff map_idI asciiUpper_fix)
  ultimately show ?thesis
    by (simp add: toUpperCase_ascii)
qed







lemma validateVatNumber_None_iff:
  "validateVatNumber s = None \<longleftrightarrow> VAT_NUMBER_REGEX_test s"
  by (auto simp: validateVatNumber_def VAT_NUMBER_REGEX_test_def)

lemma validateCountryCode_None_iff:
  "validateCountryCode U c = None \<longleftrightarrow>
     COUNTRY_CODE_REGEX_test (toUpperCase U c) \<and> toUpperCase U c \<in> set EU_COUNTRY_CODES"
  by (simp add: validateCountryCode_def Let_def)

lemma COUNTRY_CODE_REGEX_fix: "COUNTRY_CODE_REGEX_test c \<Longrightarrow> toUpperCase U c = c"
  by (rule toUpperCase_fix) (simp add: COUNTRY_CODE_REGEX_test_def list_all_iff)

lemma EU_COUNTRY_CODES_shape: "c \<in> set EU_COUNTRY_CODES \<Longrightarrow> COUNTRY_CODE_REGEX_test c"
  by (auto simp: EU_COUNTRY_CODES_def COUNTRY_CODE_REGEX_test_def str_def ch_def isUpperAZ_def)

lemmas validation_eval =
  validatePathParams_def validateFullVatInput_def validateCountryCode_def validateVatNumber_def
  COUNTRY_CODE_REGEX_test_def VAT_NUMBER_REGEX_test_def EU_COUNTRY_CODES_def
  MAX_VAT_INPUT_LENGTH_def trim_def normalizeVatNumber_def char_eval

subsection \<open>Values at concrete inputs\<close>

text \<open>
  On an ASCII input the case-mapping table is not consulted, and the values are those of
  every table.
\<close>

lemma validateCountryCode_ie: "validateCountryCode U (str ''ie'') = None"
  by (simp add: validation_eval)

lemma normalizeVatNumber_ab1: "normalizeVatNumber U (str ''ab-1'') = str ''AB1''"
  by (simp add: validation_eval)


lemma validateFullVatInput_example:
  "validateFullVatInput U (Str (str ''IE6388047V'')) =
     Inr \<lparr>countryCode = str ''IE'', vatNumber = str ''6388047V''\<rparr>"
  by (simp add: validation_eval)

lemma validateFullVatInput_padded:
  "validateFullVatInput U (Str (str ''IE6388047V           '')) =
     Inr \<lparr>countryCode = str ''IE'', vatNumber = str ''6388047V''\<rparr>"
  by (simp add: validation_eval)

text \<open>
  White space outside ASCII is stripped like a space: a no-break space inside a VAT number
  is removed by \<open>normalizeVatNumber\<close>, and no-break spaces around an identifier are
  trimmed before its length is tested, here one before it and eleven after it.
\<close>

lemma normalizeVatNumber_nbsp:
  "normalizeVatNumber U (str ''12'' @ [160] @ str ''34'') = str ''1234''"
  by (simp add: validation_eval)

lemma validateFullVatInput_nbsp:
  "validateFullVatInput U (Str (160 # str ''IE6388047V'')) =
     Inr \<lparr>countryCode = str ''IE'', vatNumber = str ''6388047V''\<rparr>"
  "validateFullVatInput U (Str (str ''IE6388047V'' @
       [160, 160, 160, 160, 160, 160, 160, 160, 160, 160, 160])) =
     Inr \<lparr>countryCode = str ''IE'', vatNumber = str ''6388047V''\<rparr>"
  by (simp_all add: validation_eval)

text \<open>
  On an input outside ASCII the outcome is that of the upper-case form the platform gives:
  with a table that maps the ligature U+FB01 to \<open>FI\<close>, the one-character code U+FB01 is
  accepted as a country code; with a table that maps the dotless i, U+0131, to \<open>I\<close>, the
  VAT number of U+0131 and \<open>23\<close> validates as \<open>I23\<close>.
\<close>

lemma validateCountryCode_ligature:
  assumes "U [64257] = str ''FI''"
  shows "validateCountryCode U [64257] = None"
  using assms by (simp add: validation_eval)

lemma validatePathParams_dotless_i:
  assumes "U [305, 50, 51] = str ''I23''"
  shows "validatePathParams U (str ''IE'') [305, 50, 51] =
     Inr \<lparr>countryCode = str ''IE'', vatNumber = str ''I23''\<rparr>"
  using assms by (simp add: validation_eval)


section \<open>Claims about input validation\<close>

text \<open>
  C6, as stated, at the concrete input \<open>ie\<close>: \<open>validateCountryCode\<close> upper-cases its
  argument before testing it, so it accepts a code that is not two upper-case letters.
\<close>

theorem C6_counterexample:
  "validateCountryCode asciiTable (str ''ie'') = None \<and> \<not> COUNTRY_CODE_REGEX_test (str ''ie'')"
  using validateCountryCode_ie [of asciiTable]
  by (simp add: COUNTRY_CODE_REGEX_test_def char_eval)

text \<open>
  C6 (amended): \<open>validateCountryCode\<close> accepts exactly when the upper-cased code is two
  letters of \<open>A-Z\<close> and a member of the allow-list, whatever the case-mapping table of the
  platform; the shape test is implied by the membership. On an ASCII code this is: the
  code, upper-cased letter by letter, is in the allow-list; on a code that already is two
  upper-case letters it is membership in the allow-list. The allow-list has 29 distinct
  codes, \<open>XI\<close> among them. A malformed shape and a well-formed unsupported code are
  rejected with two different messages.
\<close>

theorem C6_validateCountryCode:
  "(validateCountryCode U c = None \<longleftrightarrow>
      COUNTRY_CODE_REGEX_test (toUpperCase U c) \<and> toUpperCase U c \<in> set EU_COUNTRY_CODES)
   \<and> (validateCountryCode U c = None \<longleftrightarrow> toUpperCase U c \<in> set EU_COUNTRY_CODES)
   \<and> (list_all isAscii c \<longrightarrow>
        (validateCountryCode U c = None \<longleftrightarrow> map asciiUpper c \<in> set EU_COUNTRY_CODES))
   \<and> (COUNTRY_CODE_REGEX_test c \<longrightarrow> (validateCountryCode U c = None \<longleftrightarrow> c \<in> set EU_COUNTRY_CODES))
   \<and> length EU_COUNTRY_CODES = 29 \<and> distinct EU_COUNTRY_CODES \<and> str ''XI'' \<in> set EU_COUNTRY_CODES
   \<and> (\<not> COUNTRY_CODE_REGEX_test (toUpperCase U c) \<longrightarrow>
        validateCountryCode U c =
          Some \<lparr>error = str ''Invalid Input'',
                message = str ''countryCode must be a two-letter ISO country code (e.g. IE, DE).''\<rparr>)
   \<and> (COUNTRY_CODE_REGEX_test (toUpperCase U c) \<and> toUpperCase U c \<notin> set EU_COUNTRY_CODES \<longrightarrow>
        validateCountryCode U c =
          Some \<lparr>error = str ''Invalid Input'',
                message = str ''Unsupported or invalid country code: '' @ toUpperCase U c @
                  str ''. Must be an EU/EEA code supported by VIES (e.g. IE, DE, FR).''\<rparr>)
   \<and> str ''Unsupported or invalid country code: '' @ toUpperCase U c @
         str ''. Must be an EU/EEA code supported by VIES (e.g. IE, DE, FR).''
       \<noteq> str ''countryCode must be a two-letter ISO country code (e.g. IE, DE).''"
proof -
  have a: "validateCountryCode U c = None \<longleftrightarrow>
      COUNTRY_CODE_REGEX_test (toUpperCase U c) \<and> toUpperCase U c \<in> set EU_COUNTRY_CODES"
    by (rule validateCountryCode_None_iff)
  have a': "validateCountryCode U c = None \<longleftrightarrow> toUpperCase U c \<in> set EU_COUNTRY_CODES"
    using a EU_COUNTRY_CODES_shape by blast
  have a'': "list_all isAscii c \<longrightarrow>
        (validateCountryCode U c = None \<longleftrightarrow> map asciiUpper c \<in> set EU_COUNTRY_CODES)"
    using a' by (simp add: toUpperCase_ascii)
  have b: "COUNTRY_CODE_REGEX_test c \<longrightarrow> (validateCountryCode U c = None \<longleftrightarrow> c \<in> set EU_COUNTRY_CODES)"
    by (simp add: validateCountryCode_None_iff COUNTRY_CODE_REGEX_fix)
  have c: "length EU_COUNTRY_CODES = 29 \<and> distinct EU_COUNTRY_CODES \<and> str ''XI'' \<in> set EU_COUNTRY_CODES"
    by (simp add: EU_COUNTRY_CODES_def str_def ch_def)
  have d: "\<not> COUNTRY_CODE_REGEX_test (toUpperCase U c) \<longrightarrow>
        validateCountryCode U c =
          Some \<lparr>error = str ''Invalid Input'',
                message = str ''countryCode must be a two-letter ISO country code (e.g. IE, DE).''\<rparr>"
    by (simp add: validateCountryCode_def Let_def)
  have e: "COUNTRY_CODE_REGEX_test (toUpperCase U c) \<and> toUpperCase U c \<notin> set EU_COUNTRY_CODES \<longrightarrow>
        validateCountryCode U c =
          Some \<lparr>error = str ''Invalid Input'',
                message = str ''Unsupported or invalid country code: '' @ toUpperCase U c @
                  str ''. Must be an EU/EEA code supported by VIES (e.g. IE, DE, FR).''\<rparr>"
    by (simp add: validateCountryCode_def Let_def)
  have f: "str ''Unsupported or invalid country code: '' @ toUpperCase U c @
         str ''. Must be an EU/EEA code supported by VIES (e.g. IE, DE, FR).''
       \<noteq> str ''countryCode must be a two-letter ISO country code (e.g. IE, DE).''"
    by (simp add: str_def ch_def)
  from a a' a'' b c d e f show ?thesis by blast
qed

theorem C6_validateCountryCode_witness:
  "validateCountryCode asciiTable (str ''ie'') = None
   \<and> validateCountryCode asciiTable (str ''XI'') = None
   \<and> validateCountryCode asciiTable (str ''I'') =
       Some \<lparr>error = str ''Invalid Input'',
             message = str ''countryCode must be a two-letter ISO country code (e.g. IE, DE).''\<rparr>
   \<and> validateCountryCode asciiTable (str ''us'') =
       Some \<lparr>error = str ''Invalid Input'',
             message = str ''Unsupported or invalid country code: US. Must be an EU/EEA code supported by VIES (e.g. IE, DE, FR).''\<rparr>"
  using C6_validateCountryCode [of asciiTable "str ''ie''"]
    C6_validateCountryCode [of asciiTable "str ''XI''"]
    C6_validateCountryCode [of asciiTable "str ''I''"]
    C6_validateCountryCode [of asciiTable "str ''us''"]
  by (simp add: COUNTRY_CODE_REGEX_test_def EU_COUNTRY_CODES_def char_eval)

text \<open>
  C7, as stated, at the concrete input \<open>ab-1\<close>: its normal form \<open>AB1\<close> matches
  \<open>^[A-Z0-9]{2,12}$\<close>, yet \<open>validateVatNumber\<close> rejects it, since it does not
  normalise its argument.
\<close>

theorem C7_counterexample:
  "validateVatNumber (str ''ab-1'') \<noteq> None
   \<and> VAT_NUMBER_REGEX_test (normalizeVatNumber asciiTable (str ''ab-1''))"
  using normalizeVatNumber_ab1 [of asciiTable]
  by (simp add: validateVatNumber_def VAT_NUMBER_REGEX_test_def char_eval)

text \<open>
  C7 (amended): \<open>validateVatNumber\<close> accepts exactly when its argument, as given, has
  between 2 and 12 characters, each in \<open>A-Z\<close> or \<open>0-9\<close>. Its callers pass the
  normalised string, for which this is the condition on the normal form.
\<close>

theorem C7_validateVatNumber:
  "(validateVatNumber s = None \<longleftrightarrow>
      2 \<le> length s \<and> length s \<le> 12 \<and> (\<forall>c\<in>set s. isUpperAZ c \<or> isDigit09 c))
   \<and> (validateVatNumber (normalizeVatNumber U r) = None \<longleftrightarrow>
      2 \<le> length (normalizeVatNumber U r) \<and> length (normalizeVatNumber U r) \<le> 12
      \<and> (\<forall>c\<in>set (normalizeVatNumber U r). isUpperAZ c \<or> isDigit09 c))"
  by (simp add: validateVatNumber_None_iff VAT_NUMBER_REGEX_test_def list_all_iff)

theorem C7_validateVatNumber_witness:
  "validateVatNumber (str ''6388047V'') = None
   \<and> validateVatNumber (normalizeVatNumber asciiTable (str ''63 880-47v'')) = None
   \<and> validateVatNumber (str ''63 880-47v'') \<noteq> None \<and> validateVatNumber (str ''1'') \<noteq> None"
  using C7_validateVatNumber [of "str ''6388047V''" asciiTable "str ''63 880-47v''"]
    C7_validateVatNumber [of "str ''63 880-47v''" asciiTable "[]"]
    C7_validateVatNumber [of "str ''1''" asciiTable "[]"]
  by (simp add: normalizeVatNumber_def char_eval)






lemma length_trim_le: "length (trim s) \<le> length s"
proof -
  have "length (trim s) \<le> length (dropWhile isSpace s)"
    unfolding trim_def by (simp add: length_dropWhile_le order_trans [OF length_dropWhile_le])
  also have "\<dots> \<le> length s"
    by (rule length_dropWhile_le)
  finally show ?thesis .
qed

lemma validateCountryCode_error:
  "validateCountryCode U c = Some e \<Longrightarrow> error e = str ''Invalid Input''"
  by (auto simp: validateCountryCode_def Let_def split: if_splits)

lemma validateVatNumber_error: "validateVatNumber v = Some e \<Longrightarrow> error e = str ''Invalid Input''"
  by (auto simp: validateVatNumber_def split: if_splits)

lemma validateFullVatInput_error:
  assumes "validateFullVatInput U raw = Inl e"
  shows "error e = str ''Invalid Input''"
proof (cases raw)
  case NotStr
  with assms show ?thesis by (auto simp: validateFullVatInput_def)
next
  case (Str r)
  with assms show ?thesis
    by (auto simp: validateFullVatInput_def Let_def
        split: if_splits option.splits
        dest: validateCountryCode_error validateVatNumber_error)
qed

lemma validateFullVatInput_length_guard:
  assumes "length (trim r) > 20 \<or> length (trim r) < 4"
  shows "\<exists>e. validateFullVatInput U (Str r) = Inl e \<and> error e = str ''Invalid Input''"
proof -
  have "\<exists>e. validateFullVatInput U (Str r) = Inl e"
    using assms by (auto simp: validateFullVatInput_def Let_def MAX_VAT_INPUT_LENGTH_def)
  then show ?thesis
    using validateFullVatInput_error by blast
qed

text \<open>
  C5, as stated, at a concrete input of 21 characters: the length guards are applied to the
  trimmed input, so ten characters followed by eleven spaces pass them and validate.
\<close>

theorem C5_counterexample:
  "length (str ''IE6388047V           '') > 20
   \<and> validateFullVatInput asciiTable (Str (str ''IE6388047V           '')) =
       Inr \<lparr>countryCode = str ''IE'', vatNumber = str ''6388047V''\<rparr>"
  using validateFullVatInput_padded [of asciiTable]
  by (simp add: str_def)

text \<open>
  C5 (amended): \<open>validateFullVatInput\<close> trims its input, of the white space of ECMAScript,
  and rejects it with the error \<open>Invalid Input\<close> when the trimmed length is over 20 or
  under 4 (so every raw input under 4 characters is rejected). Otherwise the upper-cased
  first two characters of the trimmed input are the country code, the normalised remainder
  is the VAT number, and the two validators decide; every rejection carries the error
  \<open>Invalid Input\<close>. This holds whatever the case-mapping table of the platform. The four
  examples of the claim hold, the 25-character one for an input without surrounding
  white space.
\<close>

theorem C5_validateFullVatInput:
  "(length (trim r) > 20 \<or> length (trim r) < 4 \<longrightarrow>
      (\<exists>e. validateFullVatInput U (Str r) = Inl e \<and> error e = str ''Invalid Input''))
   \<and> (length r < 4 \<longrightarrow>
        (\<exists>e. validateFullVatInput U (Str r) = Inl e \<and> error e = str ''Invalid Input''))
   \<and> (4 \<le> length (trim r) \<and> length (trim r) \<le> 20 \<longrightarrow>
        validateFullVatInput U (Str r) =
          (case validateCountryCode U (toUpperCase U (take 2 (trim r))) of
             Some e \<Rightarrow>
               Inl (e\<lparr>message :=
                 str ''vat_number must start with a valid EU country code (e.g. IE6388047V).''\<rparr>)
           | None \<Rightarrow>
               (case validateVatNumber (normalizeVatNumber U (drop 2 (trim r))) of
                  Some e \<Rightarrow> Inl e
                | None \<Rightarrow> Inr \<lparr>countryCode = toUpperCase U (take 2 (trim r)),
                                vatNumber = normalizeVatNumber U (drop 2 (trim r))\<rparr>)))
   \<and> (\<forall>e. validateFullVatInput U (Str r) = Inl e \<longrightarrow> error e = str ''Invalid Input'')
   \<and> validateFullVatInput U (Str (str ''IE6388047V'')) =
       Inr \<lparr>countryCode = str ''IE'', vatNumber = str ''6388047V''\<rparr>
   \<and> (\<exists>e. validateFullVatInput U (Str []) = Inl e \<and> error e = str ''Invalid Input'')
   \<and> (\<exists>e. validateFullVatInput U (Str (str ''IE12345678901234567890123'')) = Inl e
          \<and> error e = str ''Invalid Input'')
   \<and> (\<exists>e. validateFullVatInput U (Str (str ''I6'')) = Inl e \<and> error e = str ''Invalid Input'')"
proof -
  have short: "length r < 4 \<longrightarrow>
      (\<exists>e. validateFullVatInput U (Str r) = Inl e \<and> error e = str ''Invalid Input'')"
  proof
    assume "length r < 4"
    with length_trim_le [of r] have "length (trim r) < 4" by simp
    then show "\<exists>e. validateFullVatInput U (Str r) = Inl e \<and> error e = str ''Invalid Input''"
      using validateFullVatInput_length_guard by blast
  qed
  have mid: "4 \<le> length (trim r) \<and> length (trim r) \<le> 20 \<longrightarrow>
        validateFullVatInput U (Str r) =
          (case validateCountryCode U (toUpperCase U (take 2 (trim r))) of
             Some e \<Rightarrow>
               Inl (e\<lparr>message :=
                 str ''vat_number must start with a valid EU country code (e.g. IE6388047V).''\<rparr>)
           | None \<Rightarrow>
               (case validateVatNumber (normalizeVatNumber U (drop 2 (trim r))) of
                  Some e \<Rightarrow> Inl e
                | None \<Rightarrow> Inr \<lparr>countryCode = toUpperCase U (take 2 (trim r)),
                                vatNumber = normalizeVatNumber U (drop 2 (trim r))\<rparr>))"
    by (auto simp: validateFullVatInput_def Let_def MAX_VAT_INPUT_LENGTH_def)
  have e0: "\<exists>e. validateFullVatInput U (Str []) = Inl e \<and> error e = str ''Invalid Input''"
    by (rule validateFullVatInput_length_guard) (simp add: trim_def)
  have e25: "\<exists>e. validateFullVatInput U (Str (str ''IE12345678901234567890123'')) = Inl e
      \<and> error e = str ''Invalid Input''"
    by (rule validateFullVatInput_length_guard) (simp add: trim_def char_eval)
  have e2: "\<exists>e. validateFullVatInput U (Str (str ''I6'')) = Inl e \<and> error e = str ''Invalid Input''"
    by (rule validateFullVatInput_length_guard) (simp add: trim_def char_eval)
  show ?thesis
    using short mid e0 e25 e2 validateFullVatInput_length_guard [of r U]
      validateFullVatInput_error [of U "Str r"] validateFullVatInput_example [of U]
    by blast
qed

text \<open>
  The instance of C5 at an input with a no-break space before and a byte-order mark and a
  space after a lower-case identifier, and at a two-character identifier between spaces.
\<close>

theorem C5_validateFullVatInput_witness:
  "validateFullVatInput asciiTable (Str (160 # str ''ie63 880-47v'' @ [65279, 32])) =
     Inr \<lparr>countryCode = str ''IE'', vatNumber = str ''6388047V''\<rparr>
   \<and> (\<exists>e. validateFullVatInput asciiTable (Str (str ''  I6   '')) = Inl e
          \<and> error e = str ''Invalid Input'')"
proof -
  have t: "trim (160 # str ''ie63 880-47v'' @ [65279, 32]) = str ''ie63 880-47v''"
    by (simp add: trim_def char_eval)
  have len: "4 \<le> length (trim (160 # str ''ie63 880-47v'' @ [65279, 32]))
      \<and> length (trim (160 # str ''ie63 880-47v'' @ [65279, 32])) \<le> 20"
    by (simp add: t) (simp add: str_def)
  have a: "validateFullVatInput asciiTable (Str (160 # str ''ie63 880-47v'' @ [65279, 32])) =
      Inr \<lparr>countryCode = str ''IE'', vatNumber = str ''6388047V''\<rparr>"
    using C5_validateFullVatInput [of "160 # str ''ie63 880-47v'' @ [65279, 32]" asciiTable,
        THEN conjunct2, THEN conjunct2, THEN conjunct1, THEN mp, OF len]
    unfolding t
    by (simp add: validateCountryCode_def validateVatNumber_def
      COUNTRY_CODE_REGEX_test_def VAT_NUMBER_REGEX_test_def EU_COUNTRY_CODES_def
      normalizeVatNumber_def char_eval)
  have t2: "trim (str ''  I6   '') = str ''I6''"
    by (simp add: trim_def char_eval)
  have "length (trim (str ''  I6   '')) > 20 \<or> length (trim (str ''  I6   '')) < 4"
    by (simp add: t2) (simp add: str_def)
  then have b: "\<exists>e. validateFullVatInput asciiTable (Str (str ''  I6   '')) = Inl e
      \<and> error e = str ''Invalid Input''"
    by (rule C5_validateFullVatInput [of "str ''  I6   ''" asciiTable, THEN conjunct1, THEN mp])
  from a b show ?thesis by (rule conjI)
qed

lemma includes_str_sublist: "includes_str s k = sublist k s"
  by (induction s) (simp_all add: sublist_Cons_right)

lemma sublist_iff_take_drop:
  "sublist k s \<longleftrightarrow> (\<exists>i\<le>length s. take (length k) (drop i s) = k)"
proof
  assume "sublist k s"
  then obtain ps ss where s: "s = ps @ k @ ss"
    by (auto simp: sublist_def)
  then have "length ps \<le> length s \<and> take (length k) (drop (length ps) s) = k"
    by simp
  then show "\<exists>i\<le>length s. take (length k) (drop i s) = k"
    by blast
next
  assume "\<exists>i\<le>length s. take (length k) (drop i s) = k"
  then obtain i where i: "take (length k) (drop i s) = k"
    by blast
  have "s = take i s @ take (length k) (drop i s) @ drop (length k) (drop i s)"
    by (simp only: append_take_drop_id)
  with i have "s = take i s @ k @ drop (length k) (drop i s)"
    by simp
  then show "sublist k s"
    unfolding sublist_def by blast
qed

lemma includes_lower_iff:
  assumes "toLowerCase k = k"
  shows "includes_str (toLowerCase s) k \<longleftrightarrow> spec_containsCI s k"
proof -
  have len: "length k = length (toLowerCase k)"
    by (simp add: toLowerCase_def)
  have "includes_str (toLowerCase s) k \<longleftrightarrow>
        (\<exists>i\<le>length s. take (length k) (drop i (toLowerCase s)) = k)"
    by (simp add: includes_str_sublist sublist_iff_take_drop toLowerCase_def)
  also have "\<dots> \<longleftrightarrow> (\<exists>i\<le>length s. toLowerCase (take (length k) (drop i s)) = toLowerCase k)"
    by (simp add: toLowerCase_def take_map drop_map assms [unfolded toLowerCase_def])
  also have "\<dots> \<longleftrightarrow> spec_containsCI s k"
    unfolding spec_containsCI_def list_ex_iff set_upt atLeast0LessThan lessThan_Suc_atMost
    by auto
  finally show ?thesis .
qed

lemma keywords_lower:
  "toLowerCase (str ''service unavailable'') = str ''service unavailable''"
  "toLowerCase (str ''server down'') = str ''server down''"
  "toLowerCase (str ''ms unavailable'') = str ''ms unavailable''"
  "toLowerCase (str ''member state'') = str ''member state''"
  "toLowerCase (str ''invalid'') = str ''invalid''"
  "toLowerCase (str ''invalid input'') = str ''invalid input''"
  "toLowerCase (str ''timeout'') = str ''timeout''"
  "toLowerCase (str ''timed out'') = str ''timed out''"
  "toLowerCase (str ''busy'') = str ''busy''"
  "toLowerCase (str ''overloaded'') = str ''overloaded''"
  by (simp_all add: char_eval)

lemma invalid_input_implies_invalid:
  "includes_str s (str ''invalid input'') \<Longrightarrow> includes_str s (str ''invalid'')"
proof -
  assume "includes_str s (str ''invalid input'')"
  then obtain ps ss where "s = ps @ str ''invalid input'' @ ss"
    by (auto simp: includes_str_sublist sublist_def)
  then have "s = ps @ str ''invalid'' @ (str '' input'' @ ss)"
    by (simp add: str_def)
  then show ?thesis
    unfolding includes_str_sublist sublist_def by blast
qed

lemma normalizeFault_spec: "normalizeFault f = spec_classifyFault spec_faultRules f"
proof -
  have inv: "(includes_str (toLowerCase f) (str ''invalid'') \<or> includes_str (toLowerCase f) (str ''invalid input''))
      = spec_containsCI f (str ''invalid'')"
    using invalid_input_implies_invalid [of "toLowerCase f"]
    by (auto simp: includes_lower_iff [symmetric] keywords_lower)
  show ?thesis
    unfolding normalizeFault_def Let_def inv
    by (simp add: spec_faultRules_def includes_lower_iff keywords_lower)
qed

section \<open>Claims about the error classifier\<close>

text \<open>
  C2: \<open>normalizeFault\<close> is the case-insensitive keyword table of the specification,
  evaluated in its priority order, with \<open>UNKNOWN_ERROR\<close> at 502 when no keyword occurs.
  A fault jsstring with both \<open>busy\<close> and \<open>invalid\<close> is never classified by the later
  \<open>busy\<close> rule: it is \<open>INVALID_INPUT\<close> at 400 unless a keyword of the two earlier rules
  occurs as well.
\<close>

theorem C2_normalizeFault_priority:
  "normalizeFault f = spec_classifyFault spec_faultRules f
   \<and> (spec_containsCI f (str ''busy'') \<and> spec_containsCI f (str ''invalid'') \<longrightarrow>
        normalizeFault f \<in> {(SERVICE_UNAVAILABLE, 503), (MS_UNAVAILABLE, 503), (INVALID_INPUT, 400)})
   \<and> (spec_containsCI f (str ''busy'') \<and> spec_containsCI f (str ''invalid'')
        \<and> \<not> spec_containsCI f (str ''service unavailable'') \<and> \<not> spec_containsCI f (str ''server down'')
        \<and> \<not> spec_containsCI f (str ''ms unavailable'') \<and> \<not> spec_containsCI f (str ''member state'') \<longrightarrow>
        normalizeFault f = (INVALID_INPUT, 400))"
proof (intro conjI impI)
  show "normalizeFault f = spec_classifyFault spec_faultRules f"
    by (rule normalizeFault_spec)
next
  assume "spec_containsCI f (str ''busy'') \<and> spec_containsCI f (str ''invalid'')"
  then show "normalizeFault f \<in> {(SERVICE_UNAVAILABLE, 503), (MS_UNAVAILABLE, 503), (INVALID_INPUT, 400)}"
    by (simp add: normalizeFault_spec spec_faultRules_def)
next
  assume "spec_containsCI f (str ''busy'') \<and> spec_containsCI f (str ''invalid'')
        \<and> \<not> spec_containsCI f (str ''service unavailable'') \<and> \<not> spec_containsCI f (str ''server down'')
        \<and> \<not> spec_containsCI f (str ''ms unavailable'') \<and> \<not> spec_containsCI f (str ''member state'')"
  then show "normalizeFault f = (INVALID_INPUT, 400)"
    by (simp add: normalizeFault_spec spec_faultRules_def)
qed

lemma busy_invalid_example:
  "spec_containsCI (str ''Server BUSY: Invalid request'') (str ''busy'')
   \<and> spec_containsCI (str ''Server BUSY: Invalid request'') (str ''invalid'')
   \<and> \<not> spec_containsCI (str ''Server BUSY: Invalid request'') (str ''service unavailable'')
   \<and> \<not> spec_containsCI (str ''Server BUSY: Invalid request'') (str ''server down'')
   \<and> \<not> spec_containsCI (str ''Server BUSY: Invalid request'') (str ''ms unavailable'')
   \<and> \<not> spec_containsCI (str ''Server BUSY: Invalid request'') (str ''member state'')"
  by (simp add: spec_containsCI_def upt_rec char_eval)

theorem C2_normalizeFault_priority_witness:
  "normalizeFault (str ''Server BUSY: Invalid request'') = (INVALID_INPUT, 400)"
  using C2_normalizeFault_priority [of "str ''Server BUSY: Invalid request''"] busy_invalid_example
  by blast





section \<open>Claims about the orchestrator\<close>

lemma checkVat_requests: "fst (checkVat w cc vn) = [PostVies (buildSoapEnvelope cc vn)]"
  by (simp add: checkVat_def Let_def)

lemma checkVatViaVatlayer_requests:
  "fst (checkVatViaVatlayer w k cc vn) = [GetVatlayer k (filter (\<lambda>c. \<not> isSpace c) (cc @ vn))]"
  by (simp add: checkVatViaVatlayer_def Let_def)

lemma useVatlayer_iff:
  "useVatlayer key err \<longleftrightarrow>
     (\<exists>k e. key = Some k \<and> k \<noteq> [] \<and> err = ViesError e
            \<and> code e = SERVICE_UNAVAILABLE \<and> statusCode e = 502)"
  by (cases key; cases err) (simp_all add: useVatlayer_def)

text \<open>
  C1: when \<open>checkVat\<close> throws, \<open>validateVat\<close> sends exactly one request to the fallback
  provider if the error is a \<open>ViesServiceError\<close> with code \<open>SERVICE_UNAVAILABLE\<close> and status
  502 and a non-empty key is configured, and returns whatever that call returns or throws;
  otherwise it sends none and rethrows the error unchanged. The registry is asked once in
  both cases.
\<close>

theorem C1_validateVat_fallback:
  assumes "checkVat w cc vn = (reqs, Inl err)"
  shows
   "(useVatlayer key err \<longleftrightarrow>
       (\<exists>k e. key = Some k \<and> k \<noteq> [] \<and> err = ViesError e
              \<and> code e = SERVICE_UNAVAILABLE \<and> statusCode e = 502))
    \<and> (useVatlayer key err \<longrightarrow>
          fst (validateVat w key cc vn) =
            reqs @ [GetVatlayer (the key) (filter (\<lambda>c. \<not> isSpace c) (cc @ vn))]
          \<and> snd (validateVat w key cc vn) = snd (checkVatViaVatlayer w (the key) cc vn))
    \<and> (\<not> useVatlayer key err \<longrightarrow> validateVat w key cc vn = (reqs, Inl err))
    \<and> length (filter isFallbackRequest (fst (validateVat w key cc vn))) =
          (if useVatlayer key err then 1 else 0)
    \<and> length (filter (\<lambda>r. \<not> isFallbackRequest r) (fst (validateVat w key cc vn))) = 1"
proof -
  have reqs: "reqs = [PostVies (buildSoapEnvelope cc vn)]"
    using assms checkVat_requests [of w cc vn] by simp
  have yes: "fst (validateVat w key cc vn) =
            reqs @ [GetVatlayer (the key) (filter (\<lambda>c. \<not> isSpace c) (cc @ vn))]
          \<and> snd (validateVat w key cc vn) = snd (checkVatViaVatlayer w (the key) cc vn)"
    if "useVatlayer key err"
  proof -
    obtain reqs' r where v: "checkVatViaVatlayer w (the key) cc vn = (reqs', r)"
      by (cases "checkVatViaVatlayer w (the key) cc vn")
    with checkVatViaVatlayer_requests [of w "the key" cc vn]
    have "reqs' = [GetVatlayer (the key) (filter (\<lambda>c. \<not> isSpace c) (cc @ vn))]"
      by simp
    with v assms that show ?thesis
      by (simp add: validateVat_def)
  qed
  have no: "validateVat w key cc vn = (reqs, Inl err)" if "\<not> useVatlayer key err"
    using assms that by (simp add: validateVat_def)
  have count: "length (filter isFallbackRequest (fst (validateVat w key cc vn))) =
          (if useVatlayer key err then 1 else 0)"
    using yes no reqs by (cases "useVatlayer key err") simp_all
  have once: "length (filter (\<lambda>r. \<not> isFallbackRequest r) (fst (validateVat w key cc vn))) = 1"
    using yes no reqs by (cases "useVatlayer key err") simp_all
  from useVatlayer_iff [of key err] yes no count once show ?thesis
    by blast
qed

theorem C1_validateVat_fallback_witness:
  "validateVat
     \<lparr>post = (\<lambda>e. RejectedAxios \<lparr>ax_code = None, ax_message = None,
                                  response = Some \<lparr>status = 403, data = OtherBody\<rparr>\<rparr>),
      get = (\<lambda>k v. GetRejectedOther None), today = (str ''2024-01-01'')\<rparr>
     (Some (str ''key'')) (str ''IE'') (str ''6388047V'')
   = ([PostVies (buildSoapEnvelope (str ''IE'') (str ''6388047V'')), GetVatlayer (str ''key'') (str ''IE6388047V'')],
      Inl (PlainError (str ''Vatlayer request failed'')))"
proof -
  define w where "w = \<lparr>post = (\<lambda>e. RejectedAxios \<lparr>ax_code = None, ax_message = None,
                                  response = Some \<lparr>status = 403, data = OtherBody\<rparr>\<rparr>),
      get = (\<lambda>k v. GetRejectedOther None), today = (str ''2024-01-01'')\<rparr>"
  define err where "err = ViesError (toFriendlyError SERVICE_UNAVAILABLE 502
      (Some (str ''The EU VIES service blocked the request (often when called from cloud/datacenter IPs). Try again later or run the API from a different network.'')))"
  have c: "checkVat w (str ''IE'') (str ''6388047V'') = ([PostVies (buildSoapEnvelope (str ''IE'') (str ''6388047V''))], Inl err)"
    by (simp add: checkVat_def Let_def w_def err_def checkVatOutcome_def classifyAxiosError_def
        faultOfErrorBody_def messageHasTimeout_def responseStatus_def)
  have u: "useVatlayer (Some (str ''key'')) err"
    by (simp add: useVatlayer_def err_def toFriendlyError_def str_def)
  from C1_validateVat_fallback [OF c, of "Some (str ''key'')"] u
  have "fst (validateVat w (Some (str ''key'')) (str ''IE'') (str ''6388047V'')) =
          [PostVies (buildSoapEnvelope (str ''IE'') (str ''6388047V''))] @
          [GetVatlayer (the (Some (str ''key''))) (filter (\<lambda>c. \<not> isSpace c) (str ''IE'' @ str ''6388047V''))]
        \<and> snd (validateVat w (Some (str ''key'')) (str ''IE'') (str ''6388047V'')) =
          snd (checkVatViaVatlayer w (the (Some (str ''key''))) (str ''IE'') (str ''6388047V''))"
    by blast
  then have "fst (validateVat w (Some (str ''key'')) (str ''IE'') (str ''6388047V'')) =
          [PostVies (buildSoapEnvelope (str ''IE'') (str ''6388047V'')), GetVatlayer (str ''key'') (str ''IE6388047V'')]
        \<and> snd (validateVat w (Some (str ''key'')) (str ''IE'') (str ''6388047V'')) =
          Inl (PlainError (str ''Vatlayer request failed''))"
    by (simp add: checkVatViaVatlayer_def Let_def w_def char_eval)
  then show ?thesis
    unfolding w_def [symmetric] by (cases "validateVat w (Some (str ''key'')) (str ''IE'') (str ''6388047V'')") simp
qed

section \<open>Facts about the matcher and the envelope\<close>

subsection \<open>Steps of the matcher\<close>

lemma rmatch_star_consume:
  assumes "\<forall>x\<in>set a. P x" and "rmatch (Star P # r) s cap = Some m"
  shows "rmatch (Star P # r) (a @ s) cap = Some m"
  using assms by (induction a) simp_all

lemma rmatch_star_stop:
  assumes "\<not> P c"
  shows "rmatch (Star P # r) (c # s) cap = rmatch r (c # s) cap"
  using assms by simp

lemma rmatch_opt_take:
  assumes "P c" and "rmatch r s cap = Some m"
  shows "rmatch (Opt P # r) (c # s) cap = Some m"
  using assms by simp

lemma rmatch_lits:
  "rmatch (map lit_i t @ r) (t @ s) cap = rmatch r s cap"
  by (induction t) (simp_all add: lit_i_def)

lemma rmatch_lazy_skip:
  assumes "\<forall>x\<in>set a. \<not> p x"
  shows "rmatch (LazyGroup anyChar # One p # r) (a @ c # s) cap =
         rmatch (LazyGroup anyChar # One p # r) (c # s) (cap @ a)"
  using assms
proof (induction a arbitrary: cap)
  case Nil
  then show ?case by simp
next
  case (Cons x a)
  have nx: "\<not> p x" and na: "\<forall>y\<in>set a. \<not> p y"
    using Cons.prems by simp_all
  have "rmatch (LazyGroup anyChar # One p # r) (x # (a @ c # s)) cap =
             rmatch (LazyGroup anyChar # One p # r) (a @ c # s) (cap @ [x])"
    using nx by (simp add: anyChar_def)
  also have "\<dots> = rmatch (LazyGroup anyChar # One p # r) (c # s) ((cap @ [x]) @ a)"
    by (rule Cons.IH [OF na])
  finally show ?case
    by (simp only: append_Cons append_Nil append_assoc)
qed

lemma rmatch_lazy_found:
  assumes "rmatch r (c # s) cap = Some m"
  shows "rmatch (LazyGroup P # r) (c # s) cap = Some m"
  using assms by simp

lemma rsearch_skip:
  assumes "\<forall>x\<in>set a. \<not> p x"
  shows "rsearch (One p # r) (a @ c # s) = rsearch (One p # r) (c # s)"
  using assms by (induction a) simp_all

subsection \<open>An element is found with its trimmed text\<close>

lemma rmatch_lazy_then:
  assumes "\<forall>x\<in>set txt. \<not> p x" and "rmatch (One p # r) (c # s) (cap @ txt) = Some m"
  shows "rmatch (LazyGroup anyChar # One p # r) (txt @ c # s) cap = Some m"
proof -
  have "rmatch (LazyGroup anyChar # One p # r) (txt @ c # s) cap =
        rmatch (LazyGroup anyChar # One p # r) (c # s) (cap @ txt)"
    using assms(1) by (rule rmatch_lazy_skip)
  also have "\<dots> = Some m"
    using assms(2) by (rule rmatch_lazy_found)
  finally show ?thesis .
qed

lemma closeTag_matches:
  assumes p: "\<forall>x\<in>set pre. x \<noteq> ch CHR '':'' \<and> x \<noteq> ch CHR ''>''"
  shows "rmatch (One (\<lambda>x. x = ch CHR ''<'') # One (\<lambda>x. x = ch CHR ''/'') # Star notColonGt #
                 Opt (\<lambda>c. c = ch CHR '':'') # map lit_i t @ [Star isSpace, One (\<lambda>x. x = ch CHR ''>'')])
           (ch CHR ''<'' # ch CHR ''/'' # pre @ ch CHR '':'' # t @ ch CHR ''>'' # rest) cap = Some cap"
proof -
  define tail where "tail = [Star isSpace, One (\<lambda>x. x = ch CHR ''>'')]"
  have 1: "rmatch tail (ch CHR ''>'' # rest) cap = Some cap"
    by (simp add: tail_def isSpace_def ch_def)
  have 2: "rmatch (map lit_i t @ tail) (t @ ch CHR ''>'' # rest) cap = Some cap"
    using 1 by (simp only: rmatch_lits)
  have 3: "rmatch (Opt (\<lambda>c. c = ch CHR '':'') # map lit_i t @ tail) (ch CHR '':'' # t @ ch CHR ''>'' # rest) cap
           = Some cap"
    using 2 by (intro rmatch_opt_take) simp_all
  have "rmatch (Star notColonGt # Opt (\<lambda>c. c = ch CHR '':'') # map lit_i t @ tail)
             (ch CHR '':'' # t @ ch CHR ''>'' # rest) cap =
        rmatch (Opt (\<lambda>c. c = ch CHR '':'') # map lit_i t @ tail) (ch CHR '':'' # t @ ch CHR ''>'' # rest) cap"
    by (rule rmatch_star_stop) (simp add: notColonGt_def ch_def)
  with 3 have 4: "rmatch (Star notColonGt # Opt (\<lambda>c. c = ch CHR '':'') # map lit_i t @ tail)
             (ch CHR '':'' # t @ ch CHR ''>'' # rest) cap = Some cap"
    by simp
  have 5: "rmatch (Star notColonGt # Opt (\<lambda>c. c = ch CHR '':'') # map lit_i t @ tail)
             (pre @ ch CHR '':'' # t @ ch CHR ''>'' # rest) cap = Some cap"
    using p 4 by (intro rmatch_star_consume) (simp_all add: notColonGt_def ch_def)
  show ?thesis
    using 5 by (simp add: tail_def)
qed

lemma tagPattern1_element:
  assumes p: "\<forall>x\<in>set pre. x \<noteq> ch CHR '':'' \<and> x \<noteq> ch CHR ''>''"
    and c: "ch CHR ''<'' \<notin> set txt"
  shows "rmatch (tagPattern1 t)
           (str ''<'' @ pre @ str '':'' @ t @ str ''>'' @ txt @ str ''</'' @ pre @ str '':'' @ t @ str ''>'' @ rest) [] = Some txt"
proof -
  define close where "close = One (\<lambda>x. x = ch CHR ''/'') # Star notColonGt #
                 Opt (\<lambda>c. c = ch CHR '':'') # map lit_i t @ [Star isSpace, One (\<lambda>x. x = ch CHR ''>'')]"
  define closing where "closing = ch CHR ''/'' # pre @ ch CHR '':'' # t @ ch CHR ''>'' # rest"
  have cl: "rmatch (One (\<lambda>x. x = ch CHR ''<'') # close) (ch CHR ''<'' # closing) ([] @ txt) = Some txt"
    unfolding close_def closing_def append_Nil using p by (rule closeTag_matches)
  have nolt: "\<forall>x\<in>set txt. \<not> x = ch CHR ''<''"
    using c by auto
  have 1: "rmatch (LazyGroup anyChar # One (\<lambda>x. x = ch CHR ''<'') # close) (txt @ ch CHR ''<'' # closing) []
           = Some txt"
    using nolt cl by (rule rmatch_lazy_then)
  define after where "after = LazyGroup anyChar # One (\<lambda>x. x = ch CHR ''<'') # close"
  define doc where "doc = txt @ ch CHR ''<'' # closing"
  have 1: "rmatch after doc [] = Some txt"
    using 1 by (simp only: after_def doc_def)
  have 2: "rmatch (Star notGt # One (\<lambda>x. x = ch CHR ''>'') # after) (ch CHR ''>'' # doc) [] = Some txt"
    using 1 by (simp add: notGt_def ch_def)
  have 3: "rmatch (map lit_i t @ Star notGt # One (\<lambda>x. x = ch CHR ''>'') # after)
             (t @ ch CHR ''>'' # doc) [] = Some txt"
    using 2 by (simp only: rmatch_lits)
  have 4: "rmatch (Opt (\<lambda>c. c = ch CHR '':'') # map lit_i t @ Star notGt # One (\<lambda>x. x = ch CHR ''>'') # after)
             (ch CHR '':'' # t @ ch CHR ''>'' # doc) [] = Some txt"
    using 3 by (intro rmatch_opt_take) simp_all
  have "rmatch (Star notColonGt # Opt (\<lambda>c. c = ch CHR '':'') # map lit_i t @ Star notGt #
                One (\<lambda>x. x = ch CHR ''>'') # after) (ch CHR '':'' # t @ ch CHR ''>'' # doc) [] =
        rmatch (Opt (\<lambda>c. c = ch CHR '':'') # map lit_i t @ Star notGt # One (\<lambda>x. x = ch CHR ''>'') # after)
             (ch CHR '':'' # t @ ch CHR ''>'' # doc) []"
    by (rule rmatch_star_stop) (simp add: notColonGt_def ch_def)
  with 4 have 5: "rmatch (Star notColonGt # Opt (\<lambda>c. c = ch CHR '':'') # map lit_i t @ Star notGt #
                One (\<lambda>x. x = ch CHR ''>'') # after) (ch CHR '':'' # t @ ch CHR ''>'' # doc) [] = Some txt"
    by simp
  have 6: "rmatch (Star notColonGt # Opt (\<lambda>c. c = ch CHR '':'') # map lit_i t @ Star notGt #
                One (\<lambda>x. x = ch CHR ''>'') # after) (pre @ ch CHR '':'' # t @ ch CHR ''>'' # doc) [] = Some txt"
    using p 5 by (intro rmatch_star_consume) (simp_all add: notColonGt_def ch_def)
  have pat: "tagPattern1 t = One (\<lambda>x. x = ch CHR ''<'') # Star notColonGt # Opt (\<lambda>c. c = ch CHR '':'') #
                map lit_i t @ Star notGt # One (\<lambda>x. x = ch CHR ''>'') # after"
    by (simp add: tagPattern1_def after_def close_def lit_def)
  have str: "str ''<'' @ pre @ str '':'' @ t @ str ''>'' @ txt @ str ''</'' @ pre @ str '':'' @ t @ str ''>'' @ rest =
             (ch CHR ''<'') # pre @ ch CHR '':'' # t @ ch CHR ''>'' # doc"
    by (simp add: doc_def closing_def str_def)
  show ?thesis
    unfolding pat str using 6 by simp
qed

lemma replaceAllChar_set:
  "x \<in> set (replaceAllChar c rep s) \<Longrightarrow> x \<in> set rep \<or> (x \<in> set s \<and> x \<noteq> c)"
  by (induction s) (auto simp: replaceAllChar_def split: if_splits)

lemma replaceAllChar_id: "c \<notin> set s \<Longrightarrow> replaceAllChar c rep s = s"
  by (induction s) (auto simp: replaceAllChar_def)

lemma escapeXml_no_lt: "ch CHR ''<'' \<notin> set (escapeXml s)"
proof
  assume "ch CHR ''<'' \<in> set (escapeXml s)"
  then have "ch CHR ''<'' \<in> set (replaceAllChar 34 (str ''&quot;'')
         (replaceAllChar (ch CHR ''>'') (str ''&gt;'')
           (replaceAllChar (ch CHR ''<'') (str ''&lt;'')
             (replaceAllChar (ch CHR ''&'') (str ''&amp;'') s))))"
    unfolding escapeXml_def by (auto simp: str_def ch_def dest!: replaceAllChar_set)
  then have "ch CHR ''<'' \<in> set (replaceAllChar (ch CHR ''>'') (str ''&gt;'')
           (replaceAllChar (ch CHR ''<'') (str ''&lt;'')
             (replaceAllChar (ch CHR ''&'') (str ''&amp;'') s)))"
    by (auto simp: str_def ch_def dest!: replaceAllChar_set)
  then have "ch CHR ''<'' \<in> set (replaceAllChar (ch CHR ''<'') (str ''&lt;'')
             (replaceAllChar (ch CHR ''&'') (str ''&amp;'') s))"
    by (auto simp: str_def ch_def dest!: replaceAllChar_set)
  then show False
    by (auto simp: str_def ch_def dest!: replaceAllChar_set)
qed

lemma escapeXml_id:
  assumes "set s \<inter> {ch CHR ''&'', ch CHR ''<'', ch CHR ''>'', 34, 39} = {}"
  shows "escapeXml s = s"
  using assms by (simp add: escapeXml_def replaceAllChar_id)

lemma envelope_head_scan:
  \<open>rsearch (tagPattern1 (str ''vatNumber''))
     (str ''<?xml version="1.0" encoding="UTF-8"?>'' @ 10 #
      str ''<soap:Envelope xmlns:soap="http://schemas.xmlsoap.org/soap/envelope/" xmlns:urn="urn:ec.europa.eu:taxud:vies:services:checkVat:types">'' @ 10 #
      str ''  <soap:Body>'' @ 10 #
      str ''    <urn:checkVat>'' @ 10 #
      str ''      <urn:countryCode>'' @ Y)
   = rsearch (tagPattern1 (str ''vatNumber'')) Y\<close>
  by (simp add: tagPattern1_def lit_def lit_i_def notColonGt_def char_eval)

lemma envelope_mid_scan:
  "rsearch (tagPattern1 (str ''vatNumber'')) (str ''</urn:countryCode>'' @ 10 # str ''      '' @ Y)
   = rsearch (tagPattern1 (str ''vatNumber'')) Y"
  by (simp add: tagPattern1_def lit_def lit_i_def notColonGt_def char_eval)

lemma rsearch_tagPattern1_skip:
  assumes "ch CHR ''<'' \<notin> set a"
  shows "rsearch (tagPattern1 t) (a @ c # s) = rsearch (tagPattern1 t) (c # s)"
proof -
  have "\<forall>x\<in>set a. \<not> x = ch CHR ''<''"
    using assms by auto
  then show ?thesis
    unfolding tagPattern1_def lit_def append_Cons append_Nil by (rule rsearch_skip)
qed

lemma rsearch_found: "rmatch re s [] = Some m \<Longrightarrow> rsearch re s = Some m"
  by (cases s) simp_all

lemma extractTag_envelope:
  "extractTag (buildSoapEnvelope cc vn) (str ''vatNumber'') = Some (trim (escapeXml vn))"
proof -
  define rest where "rest = 10 # str ''    </urn:checkVat>'' @ 10 # str ''  </soap:Body>'' @ 10 #
      str ''</soap:Envelope>''"
  define element where "element =
     str ''<'' @ str ''urn'' @ str '':'' @ str ''vatNumber'' @ str ''>'' @ escapeXml vn @ str ''</'' @ str ''urn'' @ str '':'' @ str ''vatNumber'' @ str ''>'' @ rest"
  have split: \<open>buildSoapEnvelope cc vn =
     str ''<?xml version="1.0" encoding="UTF-8"?>'' @ 10 #
      str ''<soap:Envelope xmlns:soap="http://schemas.xmlsoap.org/soap/envelope/" xmlns:urn="urn:ec.europa.eu:taxud:vies:services:checkVat:types">'' @ 10 #
      str ''  <soap:Body>'' @ 10 #
      str ''    <urn:checkVat>'' @ 10 #
      str ''      <urn:countryCode>'' @ (escapeXml cc @ (str ''</urn:countryCode>'' @ 10 # str ''      '' @ element))\<close>
    by (simp add: buildSoapEnvelope_def SOAP_NS_def element_def rest_def str_def)
  have el: "rmatch (tagPattern1 (str ''vatNumber'')) element [] = Some (escapeXml vn)"
    unfolding element_def
    by (rule tagPattern1_element) (simp add: str_def ch_def, rule escapeXml_no_lt)
  have "rsearch (tagPattern1 (str ''vatNumber'')) element = Some (escapeXml vn)"
    using el by (rule rsearch_found)
  then have 1: "rsearch (tagPattern1 (str ''vatNumber'')) (str ''</urn:countryCode>'' @ 10 # str ''      '' @ element)
      = Some (escapeXml vn)"
    by (simp only: envelope_mid_scan)
  have lt: "str ''</urn:countryCode>'' = ch CHR ''<'' # str ''/urn:countryCode>''"
    by (simp add: str_def)
  have "rsearch (tagPattern1 (str ''vatNumber''))
          (escapeXml cc @ ch CHR ''<'' # (str ''/urn:countryCode>'' @ 10 # str ''      '' @ element))
        = rsearch (tagPattern1 (str ''vatNumber''))
            (ch CHR ''<'' # (str ''/urn:countryCode>'' @ 10 # str ''      '' @ element))"
    by (rule rsearch_tagPattern1_skip) (rule escapeXml_no_lt)
  with 1 have 2: "rsearch (tagPattern1 (str ''vatNumber''))
          (escapeXml cc @ (str ''</urn:countryCode>'' @ 10 # str ''      '' @ element)) = Some (escapeXml vn)"
    by (simp add: lt)
  have "rsearch (tagPattern1 (str ''vatNumber'')) (buildSoapEnvelope cc vn) = Some (escapeXml vn)"
    unfolding split using 2 by (simp only: envelope_head_scan)
  then show ?thesis
    by (simp add: extractTag_def)
qed

subsection \<open>Trimming\<close>

lemma trim_no_space_ends:
  assumes "v \<noteq> []" and "\<not> isSpace (hd v)" and "\<not> isSpace (last v)"
  shows "trim v = v"
proof -
  have a: "dropWhile isSpace v = v"
    using assms(1,2) by (cases v) simp_all
  have "rev v \<noteq> []" and "\<not> isSpace (hd (rev v))"
    using assms(1,3) by (simp_all add: hd_rev)
  then have "dropWhile isSpace (rev v) = rev v"
    by (cases "rev v") simp_all
  with a show ?thesis
    by (simp add: trim_def)
qed

lemma trim_id:
  assumes "\<forall>c\<in>set s. \<not> isSpace c"
  shows "trim s = s"
proof (cases "s = []")
  case True
  then show ?thesis by (simp add: trim_def)
next
  case False
  then have "hd s \<in> set s" and "last s \<in> set s"
    by simp_all
  with assms False show ?thesis
    by (intro trim_no_space_ends) auto
qed

lemma VAT_NUMBER_no_meta:
  assumes "VAT_NUMBER_REGEX_test vn"
  shows "set vn \<inter> {ch CHR ''&'', ch CHR ''<'', ch CHR ''>'', 34, 39} = {}
         \<and> (\<forall>c\<in>set vn. \<not> isSpace c)"
proof -
  have ok: "\<forall>c\<in>set vn. isUpperAZ c \<or> isDigit09 c"
    using assms by (simp add: VAT_NUMBER_REGEX_test_def list_all_iff)
  have "\<forall>c\<in>set vn. c \<notin> {ch CHR ''&'', ch CHR ''<'', ch CHR ''>'', 34, 39}"
    using ok by (auto simp: isUpperAZ_def isDigit09_def ch_def)
  moreover have "\<forall>c\<in>set vn. \<not> isSpace c"
    using ok by (auto simp: isSpace_def isUpperAZ_def isDigit09_def)
  ultimately show ?thesis
    by blast
qed

section \<open>Claims about the registry client\<close>

text \<open>
  C9, as stated, at the concrete VAT number of a space followed by \<open>1\<close>: it has none of
  the five meta-characters, yet what \<open>extractTag\<close> returns from the envelope is \<open>1\<close>,
  because \<open>extractTag\<close> trims the text of the element.
\<close>

theorem C9_counterexample:
  "set (str '' 1'') \<inter> {ch CHR ''&'', ch CHR ''<'', ch CHR ''>'', 34, 39} = {}
   \<and> extractTag (buildSoapEnvelope (str ''IE'') (str '' 1'')) (str ''vatNumber'') = Some (str ''1'')
   \<and> str ''1'' \<noteq> str '' 1''"
proof -
  have "escapeXml (str '' 1'') = str '' 1''"
    by (rule escapeXml_id) (simp add: str_def ch_def)
  moreover have "trim (str '' 1'') = str ''1''"
    by (simp add: trim_def char_eval)
  ultimately have "extractTag (buildSoapEnvelope (str ''IE'') (str '' 1'')) (str ''vatNumber'')
      = Some (str ''1'')"
    using extractTag_envelope [of "str ''IE''" "str '' 1''"] by simp
  then show ?thesis
    by (simp add: str_def ch_def)
qed

text \<open>
  C9 (amended): for every country code and every VAT number without the five XML
  meta-characters (the code units 34 and 39 are the double and the single quote),
  extracting the \<open>vatNumber\<close> tag from the built envelope yields the VAT number trimmed of
  the white space of ECMAScript; it yields the VAT number unchanged when that has no
  leading or trailing white space, in particular when it passed \<open>validateVatNumber\<close>.
\<close>

theorem C9_escape_extract_roundtrip:
  "(set vn \<inter> {ch CHR ''&'', ch CHR ''<'', ch CHR ''>'', 34, 39} = {} \<longrightarrow>
      extractTag (buildSoapEnvelope cc vn) (str ''vatNumber'') = Some (trim vn))
   \<and> (set vn \<inter> {ch CHR ''&'', ch CHR ''<'', ch CHR ''>'', 34, 39} = {} \<and> trim vn = vn \<longrightarrow>
      extractTag (buildSoapEnvelope cc vn) (str ''vatNumber'') = Some vn)
   \<and> (set vn \<inter> {ch CHR ''&'', ch CHR ''<'', ch CHR ''>'', 34, 39} = {} \<and> vn \<noteq> []
        \<and> \<not> isSpace (hd vn) \<and> \<not> isSpace (last vn) \<longrightarrow>
      extractTag (buildSoapEnvelope cc vn) (str ''vatNumber'') = Some vn)
   \<and> (VAT_NUMBER_REGEX_test vn \<longrightarrow>
      extractTag (buildSoapEnvelope cc vn) (str ''vatNumber'') = Some vn)"
proof (intro conjI impI)
  assume "set vn \<inter> {ch CHR ''&'', ch CHR ''<'', ch CHR ''>'', 34, 39} = {}"
  then have "escapeXml vn = vn"
    by (rule escapeXml_id)
  then show "extractTag (buildSoapEnvelope cc vn) (str ''vatNumber'') = Some (trim vn)"
    using extractTag_envelope [of cc vn] by simp
next
  assume a: "set vn \<inter> {ch CHR ''&'', ch CHR ''<'', ch CHR ''>'', 34, 39} = {} \<and> trim vn = vn"
  then have "escapeXml vn = vn"
    by (intro escapeXml_id) simp
  with a show "extractTag (buildSoapEnvelope cc vn) (str ''vatNumber'') = Some vn"
    using extractTag_envelope [of cc vn] by simp
next
  assume a: "set vn \<inter> {ch CHR ''&'', ch CHR ''<'', ch CHR ''>'', 34, 39} = {} \<and> vn \<noteq> []
        \<and> \<not> isSpace (hd vn) \<and> \<not> isSpace (last vn)"
  then have "escapeXml vn = vn"
    by (intro escapeXml_id) simp
  moreover have "trim vn = vn"
    using a by (intro trim_no_space_ends) simp_all
  ultimately show "extractTag (buildSoapEnvelope cc vn) (str ''vatNumber'') = Some vn"
    using extractTag_envelope [of cc vn] by simp
next
  assume "VAT_NUMBER_REGEX_test vn"
  then have m: "set vn \<inter> {ch CHR ''&'', ch CHR ''<'', ch CHR ''>'', 34, 39} = {}"
    and sp: "\<forall>c\<in>set vn. \<not> isSpace c"
    using VAT_NUMBER_no_meta by blast+
  have "escapeXml vn = vn"
    using m by (rule escapeXml_id)
  moreover have "trim vn = vn"
    using sp by (rule trim_id)
  ultimately show "extractTag (buildSoapEnvelope cc vn) (str ''vatNumber'') = Some vn"
    using extractTag_envelope [of cc vn] by simp
qed

text \<open>
  The instances of C9 at a validated VAT number, at a VAT number with an inner space sent
  with a country code that needs escaping, and at \<open>1\<close> after a no-break space, which comes
  back as \<open>1\<close>.
\<close>

theorem C9_escape_extract_roundtrip_witness:
  "extractTag (buildSoapEnvelope (str ''IE'') (str ''6388047V'')) (str ''vatNumber'')
     = Some (str ''6388047V'')
   \<and> extractTag (buildSoapEnvelope (str ''a&b'') (str ''63 88'')) (str ''vatNumber'')
     = Some (str ''63 88'')
   \<and> extractTag (buildSoapEnvelope (str ''IE'') (160 # str ''1'')) (str ''vatNumber'')
     = Some (str ''1'')"
proof -
  have v: "VAT_NUMBER_REGEX_test (str ''6388047V'')"
    by (simp add: VAT_NUMBER_REGEX_test_def char_eval)
  have a: "extractTag (buildSoapEnvelope (str ''IE'') (str ''6388047V'')) (str ''vatNumber'')
      = Some (str ''6388047V'')"
    using C9_escape_extract_roundtrip [of "str ''6388047V''" "str ''IE''"] v by blast
  have m: "set (str ''63 88'') \<inter> {ch CHR ''&'', ch CHR ''<'', ch CHR ''>'', 34, 39} = {}
      \<and> trim (str ''63 88'') = str ''63 88''"
    by (simp add: trim_def char_eval)
  have b: "extractTag (buildSoapEnvelope (str ''a&b'') (str ''63 88'')) (str ''vatNumber'')
      = Some (str ''63 88'')"
    using C9_escape_extract_roundtrip [of "str ''63 88''" "str ''a&b''"] m by blast
  have n: "set (160 # str ''1'') \<inter> {ch CHR ''&'', ch CHR ''<'', ch CHR ''>'', 34, 39} = {}"
    by (simp add: char_eval)
  have t: "trim (160 # str ''1'') = str ''1''"
    by (simp add: trim_def char_eval)
  have "extractTag (buildSoapEnvelope (str ''IE'') (160 # str ''1'')) (str ''vatNumber'')
      = Some (trim (160 # str ''1''))"
    using C9_escape_extract_roundtrip [of "160 # str ''1''" "str ''IE''"] n by blast
  then have c: "extractTag (buildSoapEnvelope (str ''IE'') (160 # str ''1'')) (str ''vatNumber'')
      = Some (str ''1'')"
    by (simp only: t)
  from a b c show ?thesis
    by (intro conjI)
qed

lemmas regex_eval =
  extractTag_def tagPattern1_def tagPattern2_def truePattern_def lit_def lit_i_def
  notColonGt_def notGt_def anyChar_def trim_def char_eval

subsection \<open>Bodies on which the tag search goes wrong\<close>

text \<open>
  The first pattern of \<open>extractTag\<close> makes the prefix \<^verbatim>\<open>[^:>]*\<close> and the colon \<^verbatim>\<open>:?\<close>
  optional independently of each other, so that what precedes the tag name need not be a
  namespace prefix: any tag whose name ends with the name searched for is taken. The
  lemmas below evaluate the searches on four short bodies.
\<close>

lemma extractTag_isValid:
  "extractTag (str ''<isValid>true</isValid>'') (str ''faultstring'') = None"
  "extractTag (str ''<isValid>true</isValid>'') (str ''valid'') = Some (str ''true'')"
  "extractTag (str ''<isValid>true</isValid>'') (str ''countryCode'') = None"
  "extractTag (str ''<isValid>true</isValid>'') (str ''vatNumber'') = None"
  "extractTag (str ''<isValid>true</isValid>'') (str ''name'') = None"
  "extractTag (str ''<isValid>true</isValid>'') (str ''address'') = None"
  "extractTag (str ''<isValid>true</isValid>'') (str ''requestDate'') = None"
  "extractTag (str ''<isValid>true</isValid>'') (str ''requestIdentifier'') = None"
  by (simp_all add: regex_eval)

lemma extractTag_empty_fault:
  "extractTag (str ''<faultstring></faultstring><valid>true</valid>'') (str ''faultstring'') = Some []"
  "extractTag (str ''<faultstring></faultstring><valid>true</valid>'') (str ''valid'') = Some (str ''true'')"
  "extractTag (str ''<faultstring></faultstring><valid>true</valid>'') (str ''countryCode'') = None"
  "extractTag (str ''<faultstring></faultstring><valid>true</valid>'') (str ''vatNumber'') = None"
  "extractTag (str ''<faultstring></faultstring><valid>true</valid>'') (str ''name'') = None"
  "extractTag (str ''<faultstring></faultstring><valid>true</valid>'') (str ''address'') = None"
  "extractTag (str ''<faultstring></faultstring><valid>true</valid>'') (str ''requestDate'') = None"
  "extractTag (str ''<faultstring></faultstring><valid>true</valid>'') (str ''requestIdentifier'') = None"
  by (simp_all add: regex_eval)

lemma extractTag_companyname:
  "extractTag (str ''<valid>true</valid><companyname>Q</companyname><name>N</name>'') (str ''valid'')
     = Some (str ''true'')"
  "extractTag (str ''<valid>true</valid><companyname>Q</companyname><name>N</name>'') (str ''name'')
     = Some (str ''Q'')"
  "extractTag (str ''<valid>true</valid><companyname>Q</companyname><name>N</name>'') (str ''countryCode'')
     = None"
  "extractTag (str ''<valid>true</valid><companyname>Q</companyname><name>N</name>'') (str ''vatNumber'')
     = None"
  "extractTag (str ''<valid>true</valid><companyname>Q</companyname><name>N</name>'') (str ''address'')
     = None"
  "extractTag (str ''<valid>true</valid><companyname>Q</companyname><name>N</name>'') (str ''requestDate'')
     = None"
  "extractTag (str ''<valid>true</valid><companyname>Q</companyname><name>N</name>'')
     (str ''requestIdentifier'') = None"
  by (simp_all add: regex_eval)

lemma extractTag_invalid:
  "extractTag (str ''<invalid>true</invalid>'') (str ''valid'') = Some (str ''true'')"
  "extractTag (str ''<invalid>true</invalid>'') (str ''countryCode'') = None"
  "extractTag (str ''<invalid>true</invalid>'') (str ''vatNumber'') = None"
  "extractTag (str ''<invalid>true</invalid>'') (str ''name'') = None"
  "extractTag (str ''<invalid>true</invalid>'') (str ''address'') = None"
  "extractTag (str ''<invalid>true</invalid>'') (str ''requestDate'') = None"
  "extractTag (str ''<invalid>true</invalid>'') (str ''requestIdentifier'') = None"
  by (simp_all add: regex_eval)

lemma true_is_true: "rmatch truePattern (str ''true'') [] \<noteq> None"
  by (simp add: regex_eval)

lemma bodies_not_blank:
  "length (trim (str ''<isValid>true</isValid>'')) \<noteq> 0"
  "length (trim (str ''<faultstring></faultstring><valid>true</valid>'')) \<noteq> 0"
  by (simp_all add: trim_def char_eval)

text \<open>
  C4 does not hold of the code. A response whose body is \<^verbatim>\<open><isValid>true</isValid>\<close> has
  neither a \<open>faultstring\<close> nor a \<open>valid\<close> element, yet \<open>checkVat\<close> returns a result with
  \<open>valid\<close> true instead of failing with \<open>PARSE_ERROR\<close>: the search for the tag \<open>valid\<close>
  takes the element \<open>isValid\<close>. A response whose body has a \<open>faultstring\<close> element with
  empty text, followed by \<^verbatim>\<open><valid>true</valid>\<close>, is parsed as a result with \<open>valid\<close> true
  instead of being classified as a fault: \<open>getSoapFaultString\<close> tests the extracted text
  for truthiness, and the empty text is falsy.
\<close>

theorem C4_checkVat_body_divergence:
  "checkVatOutcome (Resolved (TextBody (str ''<isValid>true</isValid>''))) =
     Inr \<lparr>countryCode = [], vatNumber = [], valid = True, name = [], address = [],
          requestDate = [], consultationNumber = None\<rparr>
   \<and> getSoapFaultString (str ''<isValid>true</isValid>'') = None
   \<and> checkVatOutcome (Resolved (TextBody (str ''<faultstring></faultstring><valid>true</valid>''))) =
     Inr \<lparr>countryCode = [], vatNumber = [], valid = True, name = [], address = [],
          requestDate = [], consultationNumber = None\<rparr>"
proof -
  have f1: "getSoapFaultString (str ''<isValid>true</isValid>'') = None"
    by (simp add: getSoapFaultString_def extractTag_isValid)
  have p1: "parseViesResponse (str ''<isValid>true</isValid>'') =
     Inr \<lparr>countryCode = [], vatNumber = [], valid = True, name = [], address = [],
          requestDate = [], consultationNumber = None\<rparr>"
    using true_is_true by (simp add: parseViesResponse_def extractTag_isValid orEmpty_def)
  have a: "checkVatOutcome (Resolved (TextBody (str ''<isValid>true</isValid>''))) =
     Inr \<lparr>countryCode = [], vatNumber = [], valid = True, name = [], address = [],
          requestDate = [], consultationNumber = None\<rparr>"
    using bodies_not_blank(1) by (simp add: checkVatOutcome_def f1 p1)
  have f2: "getSoapFaultString (str ''<faultstring></faultstring><valid>true</valid>'') = None"
    by (simp add: getSoapFaultString_def extractTag_empty_fault)
  have p2: "parseViesResponse (str ''<faultstring></faultstring><valid>true</valid>'') =
     Inr \<lparr>countryCode = [], vatNumber = [], valid = True, name = [], address = [],
          requestDate = [], consultationNumber = None\<rparr>"
    using true_is_true by (simp add: parseViesResponse_def extractTag_empty_fault orEmpty_def)
  have b: "checkVatOutcome (Resolved (TextBody (str ''<faultstring></faultstring><valid>true</valid>''))) =
     Inr \<lparr>countryCode = [], vatNumber = [], valid = True, name = [], address = [],
          requestDate = [], consultationNumber = None\<rparr>"
    using bodies_not_blank(2) by (simp add: checkVatOutcome_def f2 p2)
  from a f1 b show ?thesis
    by (intro conjI)
qed

text \<open>
  C8 does not hold of the code. In the body
  \<^verbatim>\<open><valid>true</valid><companyname>Q</companyname><name>N</name>\<close>, which
  \<open>parseViesResponse\<close> accepts, the tag named \<open>name\<close> has the text \<open>N\<close>, yet the field \<open>name\<close>
  of the result is \<open>Q\<close>, the text of the element \<open>companyname\<close>. The body
  \<^verbatim>\<open><invalid>true</invalid>\<close> has no tag named \<open>valid\<close>, yet it is accepted, with \<open>valid\<close>
  true, from the element \<open>invalid\<close>.
\<close>

theorem C8_parseViesResponse_divergence:
  "parseViesResponse (str ''<valid>true</valid><companyname>Q</companyname><name>N</name>'') =
     Inr \<lparr>countryCode = [], vatNumber = [], valid = True, name = str ''Q'', address = [],
          requestDate = [], consultationNumber = None\<rparr>
   \<and> parseViesResponse (str ''<invalid>true</invalid>'') =
     Inr \<lparr>countryCode = [], vatNumber = [], valid = True, name = [], address = [],
          requestDate = [], consultationNumber = None\<rparr>"
proof -
  have a: "parseViesResponse (str ''<valid>true</valid><companyname>Q</companyname><name>N</name>'') =
     Inr \<lparr>countryCode = [], vatNumber = [], valid = True, name = str ''Q'', address = [],
          requestDate = [], consultationNumber = None\<rparr>"
    using true_is_true by (simp add: parseViesResponse_def extractTag_companyname orEmpty_def)
  have b: "parseViesResponse (str ''<invalid>true</invalid>'') =
     Inr \<lparr>countryCode = [], vatNumber = [], valid = True, name = [], address = [],
          requestDate = [], consultationNumber = None\<rparr>"
    using true_is_true by (simp add: parseViesResponse_def extractTag_invalid orEmpty_def)
  from a b show ?thesis
    by (rule conjI)
qed

end
